theory Spec2Isabelle
  imports Main "HOL-Library.Word" "HOL-Library.Signed_Division"
begin

unbundle bit_operations_syntax

section \<open>Machine integers of the driver\<close>

text \<open>
  The driver is built for a 64-bit Android GKI kernel: \<^verbatim>\<open>int\<close> and \<^verbatim>\<open>u32\<close> are 32-bit
  words, \<^verbatim>\<open>unsigned short\<close> is 16 bits, \<^verbatim>\<open>unsigned long\<close> (jiffies, counters, the
  key bitmap) is 64 bits. The kernel is compiled with \<^verbatim>\<open>-fno-strict-overflow\<close>, so signed
  arithmetic wraps around; word arithmetic gives exactly that. Signed comparisons read
  the word through \<open>sint\<close> (\<open><s\<close>, \<open>\<le>s\<close>), unsigned ones use the word order.
\<close>

type_synonym u8 = "8 word"
type_synonym u16 = "16 word"
type_synonym u32 = "32 word"
type_synonym s32 = "32 word"
type_synonym ulong = "64 word"

text \<open>C's \<^verbatim>\<open>/\<close> and \<^verbatim>\<open>%\<close> on \<^verbatim>\<open>int\<close> truncate towards zero.\<close>

definition sdiv32 :: "s32 \<Rightarrow> s32 \<Rightarrow> s32" where
  "sdiv32 a b = word_of_int (sint a sdiv sint b)"

definition smod32 :: "s32 \<Rightarrow> s32 \<Rightarrow> s32" where
  "smod32 a b = word_of_int (sint a smod sint b)"

text \<open>The kernel's \<^verbatim>\<open>abs\<close> on an \<^verbatim>\<open>int\<close>.\<close>

definition abs32 :: "s32 \<Rightarrow> s32" where
  "abs32 x = (if x <s 0 then - x else x)"

section \<open>Helper functions\<close>

definition stealth_clamp :: "s32 \<Rightarrow> s32 \<Rightarrow> s32 \<Rightarrow> s32" where
  "stealth_clamp val mn mx =
     (if val <s mn then mn else if mx <s val then mx else val)"

text \<open>
  \<^verbatim>\<open>fast_sqrt\<close>: the loop \<^verbatim>\<open>while (b > 0) { ...; b >>= 1; }\<close> with its two variables
  \<open>y\<close> and \<open>b\<close>. The product \<^verbatim>\<open>y_plus_b * y_plus_b\<close> is an \<^verbatim>\<open>int\<close> product and wraps.
\<close>

function fast_sqrt_loop :: "s32 \<Rightarrow> s32 \<Rightarrow> s32 \<Rightarrow> s32" where
  "fast_sqrt_loop x y b =
     (if 0 <s b
      then (let y_plus_b = y + b
            in fast_sqrt_loop x
                 (if y_plus_b * y_plus_b \<le>s x then y_plus_b else y)
                 (signed_drop_bit 1 b))
      else y)"
  by pat_completeness auto

termination fast_sqrt_loop
  apply (relation "measure (\<lambda>(x, y, b). nat (sint b))")
   apply simp
  apply (simp add: word_sless_alt sint_signed_drop_bit_eq drop_bit_eq_div)
  done

declare fast_sqrt_loop.simps [simp del]

definition fast_sqrt :: "s32 \<Rightarrow> s32" where
  "fast_sqrt x = (if x \<le>s 0 then 0 else fast_sqrt_loop x 0 (push_bit 15 1))"

text \<open>
  \<^verbatim>\<open>simple_crc16\<close>: the inner loop over the eight bits (\<open>crc_bits\<close>), the outer loop
  over the bytes (\<open>crc_bytes\<close>).
\<close>

definition crc_step :: "u16 \<Rightarrow> u16" where
  "crc_step crc = (if crc AND 1 \<noteq> 0 then drop_bit 1 crc XOR 0xA001 else drop_bit 1 crc)"

primrec crc_bits :: "nat \<Rightarrow> u16 \<Rightarrow> u16" where
  "crc_bits 0 crc = crc"
| "crc_bits (Suc j) crc = crc_bits j (crc_step crc)"

primrec crc_bytes :: "u16 \<Rightarrow> u8 list \<Rightarrow> u16" where
  "crc_bytes crc [] = crc"
| "crc_bytes crc (d # ds) = crc_bytes (crc_bits 8 (crc XOR ucast d)) ds"

definition simple_crc16 :: "u8 list \<Rightarrow> u16" where
  "simple_crc16 data = crc_bytes 0xFFFF data"

text \<open>Little-endian reads of the kernel (\<^verbatim>\<open>get_unaligned_le16/32\<close>) at a byte offset.\<close>

definition get_unaligned_le16 :: "u8 list \<Rightarrow> nat \<Rightarrow> u16" where
  "get_unaligned_le16 p off = ucast (p ! off) OR push_bit 8 (ucast (p ! (off + 1)))"

definition get_unaligned_le32 :: "u8 list \<Rightarrow> nat \<Rightarrow> u32" where
  "get_unaligned_le32 p off =
     ucast (p ! off) OR push_bit 8 (ucast (p ! (off + 1)))
       OR push_bit 16 (ucast (p ! (off + 2))) OR push_bit 24 (ucast (p ! (off + 3)))"

section \<open>Constants\<close>

definition MAGIC_SIGNATURE :: u32 where "MAGIC_SIGNATURE = 0x51444953"

definition CMD_SET_SLIDE_KEY :: u8 where "CMD_SET_SLIDE_KEY = 0xA1"
definition CMD_SET_KEY_MAPPING :: u8 where "CMD_SET_KEY_MAPPING = 0xA2"
definition CMD_SET_SENSITIVITY :: u8 where "CMD_SET_SENSITIVITY = 0xA3"
definition CMD_SET_MODE :: u8 where "CMD_SET_MODE = 0xA4"
definition CMD_SET_JOYSTICK :: u8 where "CMD_SET_JOYSTICK = 0xA5"
definition CMD_SET_CONFIG :: u8 where "CMD_SET_CONFIG = 0xA6"
definition CMD_GET_STATUS :: u8 where "CMD_GET_STATUS = 0xA7"
definition CMD_ACTIVATE :: u8 where "CMD_ACTIVATE = 0xA8"
definition CMD_DEACTIVATE :: u8 where "CMD_DEACTIVATE = 0xA9"
definition CMD_HEARTBEAT :: u8 where "CMD_HEARTBEAT = 0xAA"

definition MODE_CURSOR :: s32 where "MODE_CURSOR = 0"
definition MODE_VIEW :: s32 where "MODE_VIEW = 1"
definition MODE_JOYSTICK :: s32 where "MODE_JOYSTICK = 2"
definition MODE_SILENT :: s32 where "MODE_SILENT = 3"

section \<open>Data model\<close>

text \<open>
  \<^verbatim>\<open>struct stealth_config\<close> and its nested structs. Field names carry the name of the
  sub-struct as a prefix (\<open>sk_\<close>, \<open>cur_\<close>, \<open>view_\<close>, \<open>joy_\<close>, \<open>km_\<close>), since record fields
  share one name space.
\<close>

record slide_key_t =
  sk_enabled :: s32
  sk_trigger_key :: s32
  sk_slide_x :: s32
  sk_slide_y :: s32
  sk_max_radius :: s32
  sk_sensitivity :: s32
  sk_require_shift :: s32
  sk_shift_key :: s32
  sk_active :: s32
  sk_sliding :: s32
  sk_current_x :: s32
  sk_current_y :: s32
  sk_hold_time :: s32
  sk_release_delay :: s32

record cursor_t =
  cur_speed :: s32
  cur_left_click_x :: s32
  cur_left_click_y :: s32
  cur_right_click_x :: s32
  cur_right_click_y :: s32
  cur_current_x :: s32
  cur_current_y :: s32
  cur_active :: s32
  cur_last_key :: s32

record view_t =
  view_center_x :: s32
  view_center_y :: s32
  view_max_radius :: s32
  view_deadzone :: s32
  view_sensitivity :: s32
  view_auto_release_time :: s32
  view_active :: s32
  view_current_x :: s32
  view_current_y :: s32
  view_last_dx :: s32
  view_last_dy :: s32

record joystick_t =
  joy_enabled :: s32
  joy_center_x :: s32
  joy_center_y :: s32
  joy_radius :: s32
  joy_deadzone :: s32
  joy_active :: s32
  joy_current_x :: s32
  joy_current_y :: s32
  joy_move_slot :: s32
  joy_key_up :: s32
  joy_key_down :: s32
  joy_key_left :: s32
  joy_key_right :: s32
  joy_key_states :: ulong

text \<open>
  \<^verbatim>\<open>struct key_mapping\<close>. The union \<^verbatim>\<open>params\<close> overlays three structs of \<^verbatim>\<open>int\<close>s, so
  it is five words and the members are views of them: \<^verbatim>\<open>click.x\<close>, \<^verbatim>\<open>hold.x\<close> and
  \<^verbatim>\<open>swipe.start_x\<close> are word 0; \<^verbatim>\<open>click.y\<close>, \<^verbatim>\<open>hold.y\<close>, \<^verbatim>\<open>swipe.start_y\<close> word 1;
  \<^verbatim>\<open>click.duration\<close>, \<^verbatim>\<open>hold.pressure\<close>, \<^verbatim>\<open>swipe.end_x\<close> word 2; \<^verbatim>\<open>swipe.end_y\<close>
  word 3; \<^verbatim>\<open>swipe.duration\<close> word 4. The linked list is a list, head first.
\<close>

record key_mapping =
  km_keycode :: s32
  km_key_name :: "u8 list"
  km_action :: s32
  km_instant_release :: s32
  km_slot :: s32
  km_params0 :: s32
  km_params1 :: s32
  km_params2 :: s32
  km_params3 :: s32
  km_params4 :: s32

definition click_x :: "key_mapping \<Rightarrow> s32" where "click_x km = km_params0 km"
definition click_y :: "key_mapping \<Rightarrow> s32" where "click_y km = km_params1 km"
definition click_duration :: "key_mapping \<Rightarrow> s32" where "click_duration km = km_params2 km"
definition hold_x :: "key_mapping \<Rightarrow> s32" where "hold_x km = km_params0 km"
definition hold_y :: "key_mapping \<Rightarrow> s32" where "hold_y km = km_params1 km"
definition hold_pressure :: "key_mapping \<Rightarrow> s32" where "hold_pressure km = km_params2 km"

record stealth_config =
  activated :: s32
  activate_time :: ulong
  screen_width :: s32
  screen_height :: s32
  max_touch_points :: s32
  slide_key :: slide_key_t
  cursor :: cursor_t
  view :: view_t
  joystick :: joystick_t
  keymap_list :: "key_mapping list"
  current_mode :: s32
  jitter_range :: s32
  stealth_level :: s32
  initialized :: s32
  heartbeat_interval :: s32
  mode_switch_key :: s32
  enable_instant_release :: s32
  stats_moves :: ulong
  stats_clicks :: ulong
  stats_slides :: ulong
  stats_commands :: ulong

text \<open>
  What the driver does to the outside: the calls on the input device, in order, and the
  sleeps between them.
\<close>

datatype abs_code =
  ABS_MT_POSITION_X | ABS_MT_POSITION_Y | ABS_MT_PRESSURE | ABS_MT_TOUCH_MAJOR
| ABS_MT_TRACKING_ID

datatype effect =
  Input_mt_slot s32
| Input_mt_report_slot_state bool
| Input_report_abs abs_code s32
| Input_sync
| Msleep u32

text \<open>
  \<^verbatim>\<open>struct stealth_device\<close>, the one global \<^verbatim>\<open>stealth_dev\<close>: \<open>input_dev\<close> says whether the
  pointer is non-NULL, \<open>config\<close> is the Config Store. Two more components record the
  environment: \<open>emitted\<close>, the effects so far (oldest first), and \<open>rand_calls\<close>, the number
  of \<^verbatim>\<open>get_random_bytes\<close> draws made in the injection engine so far; the draws themselves
  are a parameter \<open>rnd\<close> of the functions (the n-th draw is \<open>rnd n\<close>). The character device,
  the locks, the unused command channels and the hidden id are left out.
\<close>

record stealth_device =
  input_dev :: bool
  config :: stealth_config
  emitted :: "effect list"
  rand_calls :: nat

section \<open>Input injection\<close>

text \<open>
  \<^verbatim>\<open>send_touch_event_safe\<close>. Its last part, the calls on the input device from
  \<^verbatim>\<open>input_mt_slot\<close> to \<^verbatim>\<open>input_sync\<close>, is \<open>touch_report\<close>. The jitter takes one draw;
  \<^verbatim>\<open>%\<close> there is unsigned, since \<^verbatim>\<open>rand_val\<close> is an \<^verbatim>\<open>unsigned int\<close>, and the difference is
  converted back to \<^verbatim>\<open>int\<close>.
\<close>

definition touch_report :: "s32 \<Rightarrow> s32 \<Rightarrow> s32 \<Rightarrow> s32 \<Rightarrow> effect list" where
  "touch_report slot x y pressure =
     [Input_mt_slot slot, Input_mt_report_slot_state (0 <s pressure)]
     @ (if 0 <s pressure
        then [Input_report_abs ABS_MT_POSITION_X x,
              Input_report_abs ABS_MT_POSITION_Y y,
              Input_report_abs ABS_MT_PRESSURE pressure,
              Input_report_abs ABS_MT_TOUCH_MAJOR 10,
              Input_report_abs ABS_MT_TRACKING_ID slot]
        else [Input_report_abs ABS_MT_TRACKING_ID (- 1)])
     @ [Input_sync]"

definition send_touch_event_safe ::
  "(nat \<Rightarrow> u32) \<Rightarrow> s32 \<Rightarrow> s32 \<Rightarrow> s32 \<Rightarrow> s32 \<Rightarrow> stealth_device \<Rightarrow> stealth_device" where
  "send_touch_event_safe rnd slot x y pressure dev =
     (let cfg = config dev in
      if \<not> input_dev dev \<or> activated cfg = 0 then dev
      else
        let x1 = stealth_clamp x 0 (screen_width cfg - 1);
            y1 = stealth_clamp y 0 (screen_height cfg - 1);
            p = stealth_clamp pressure 0 255;
            jitter = (0 <s jitter_range cfg \<and> 0 <s p);
            rand_val = rnd (rand_calls dev);
            jx = rand_val mod (jitter_range cfg * 2 + 1) - jitter_range cfg;
            jy = drop_bit 8 rand_val mod (jitter_range cfg * 2 + 1) - jitter_range cfg;
            x2 = (if jitter then stealth_clamp (x1 + jx) 0 (screen_width cfg - 1) else x1);
            y2 = (if jitter then stealth_clamp (y1 + jy) 0 (screen_height cfg - 1) else y1)
        in dev\<lparr>emitted := emitted dev @ touch_report slot x2 y2 p,
                 rand_calls := (if jitter then Suc (rand_calls dev) else rand_calls dev),
                 config := cfg\<lparr>stats_moves := stats_moves cfg + 1\<rparr>\<rparr>)"

definition msleep :: "u32 \<Rightarrow> stealth_device \<Rightarrow> stealth_device" where
  "msleep ms dev = dev\<lparr>emitted := emitted dev @ [Msleep ms]\<rparr>"

section \<open>Joystick\<close>

text \<open>\<^verbatim>\<open>key_states |= (1 << n)\<close> when pressed, \<^verbatim>\<open>key_states &= ~(1 << n)\<close> otherwise.\<close>

definition set_key_state :: "s32 \<Rightarrow> nat \<Rightarrow> ulong \<Rightarrow> ulong" where
  "set_key_state pressed n ks =
     (if pressed \<noteq> 0 then ks OR push_bit n 1 else ks AND NOT (push_bit n 1))"

text \<open>
  \<^verbatim>\<open>update_joystick_state\<close>, in the order of the source: the update of the key bitmap
  (\<open>joystick_keys\<close>), the displacement with the dead zone (\<open>joystick_vector\<close>), the
  position limited to the circle (\<open>joystick_target\<close>), and the function itself. The
  result is \<open>None\<close> where the C divides by zero (\<^verbatim>\<open>distance\<close> is 0 and \<^verbatim>\<open>radius\<close>
  negative), which is undefined behaviour.
\<close>

definition joystick_keys :: "joystick_t \<Rightarrow> s32 \<Rightarrow> s32 \<Rightarrow> ulong" where
  "joystick_keys js keycode pressed =
     (if keycode = joy_key_up js then set_key_state pressed 0 (joy_key_states js)
      else if keycode = joy_key_down js then set_key_state pressed 1 (joy_key_states js)
      else if keycode = joy_key_left js then set_key_state pressed 2 (joy_key_states js)
      else if keycode = joy_key_right js then set_key_state pressed 3 (joy_key_states js)
      else joy_key_states js)"

definition joystick_vector :: "joystick_t \<Rightarrow> ulong \<Rightarrow> s32 \<times> s32" where
  "joystick_vector js ks =
     (let dy1 = (if ks AND push_bit 0 1 \<noteq> 0 then 0 - joy_radius js else 0);
          dy2 = (if ks AND push_bit 1 1 \<noteq> 0 then dy1 + joy_radius js else dy1);
          dx1 = (if ks AND push_bit 2 1 \<noteq> 0 then 0 - joy_radius js else 0);
          dx2 = (if ks AND push_bit 3 1 \<noteq> 0 then dx1 + joy_radius js else dx1);
          dx = (if abs32 dx2 <s joy_deadzone js then 0 else dx2);
          dy = (if abs32 dy2 <s joy_deadzone js then 0 else dy2)
      in (dx, dy))"

definition joystick_target :: "joystick_t \<Rightarrow> s32 \<Rightarrow> s32 \<Rightarrow> (s32 \<times> s32) option" where
  "joystick_target js dx dy =
     (let cx = joy_center_x js + dx;
          cy = joy_center_y js + dy;
          dist_x = cx - joy_center_x js;
          dist_y = cy - joy_center_y js;
          distance = fast_sqrt (dist_x * dist_x + dist_y * dist_y)
      in if joy_radius js <s distance then
           (if distance = 0 then None
            else Some (joy_center_x js + sdiv32 (dist_x * joy_radius js) distance,
                       joy_center_y js + sdiv32 (dist_y * joy_radius js) distance))
         else Some (cx, cy))"

definition update_joystick_state ::
  "(nat \<Rightarrow> u32) \<Rightarrow> s32 \<Rightarrow> s32 \<Rightarrow> stealth_device \<Rightarrow> stealth_device option" where
  "update_joystick_state rnd keycode pressed dev =
     (let cfg = config dev; js = joystick cfg in
      if joy_enabled js = 0 \<or> current_mode cfg \<noteq> MODE_JOYSTICK then Some dev
      else
        let js1 = js\<lparr>joy_key_states := joystick_keys js keycode pressed\<rparr> in
        case joystick_vector js1 (joy_key_states js1) of
          (dx, dy) \<Rightarrow>
            if dx \<noteq> 0 \<or> dy \<noteq> 0 then
              (case joystick_target js1 dx dy of
                 None \<Rightarrow> None
               | Some (cx, cy) \<Rightarrow>
                   Some (send_touch_event_safe rnd (joy_move_slot js1) cx cy 100
                           (dev\<lparr>config := cfg\<lparr>joystick :=
                              js1\<lparr>joy_current_x := cx, joy_current_y := cy,
                                  joy_active := 1\<rparr>\<rparr>\<rparr>)))
            else if joy_active js1 \<noteq> 0 then
              Some (send_touch_event_safe rnd (joy_move_slot js1) 0 0 0
                      (dev\<lparr>config := cfg\<lparr>joystick := js1\<lparr>joy_active := 0\<rparr>\<rparr>\<rparr>))
            else Some (dev\<lparr>config := cfg\<lparr>joystick := js1\<rparr>\<rparr>))"

section \<open>Key handling\<close>

text \<open>The body of \<^verbatim>\<open>case MODE_CURSOR\<close> in \<^verbatim>\<open>handle_key_mapping\<close>.\<close>

definition set_cursor :: "(cursor_t \<Rightarrow> cursor_t) \<Rightarrow> stealth_device \<Rightarrow> stealth_device" where
  "set_cursor f dev = dev\<lparr>config := (config dev)\<lparr>cursor := f (cursor (config dev))\<rparr>\<rparr>"

definition cursor_mode_key :: "(nat \<Rightarrow> u32) \<Rightarrow> s32 \<Rightarrow> s32 \<Rightarrow> stealth_device \<Rightarrow> stealth_device" where
  "cursor_mode_key rnd keycode pressed dev =
     (let cur = cursor (config dev) in
      if keycode = cur_last_key cur \<and> pressed \<noteq> 0 then
        let dev1 = send_touch_event_safe rnd 0 (cur_current_x cur) (cur_current_y cur) 100 dev;
            dev2 = msleep 50 dev1;
            dev3 = send_touch_event_safe rnd 0 (cur_current_x cur) (cur_current_y cur) 0 dev2;
            dev4 = set_cursor (\<lambda>c. c\<lparr>cur_active := 0\<rparr>) dev3
        in set_cursor (\<lambda>c. c\<lparr>cur_last_key := keycode\<rparr>) dev4
      else set_cursor (\<lambda>c. c\<lparr>cur_last_key := keycode\<rparr>) dev)"

text \<open>
  The walk over the mapping list: the first node with the keycode decides and ends the
  walk (\<^verbatim>\<open>break\<close>). The \<^verbatim>\<open>switch (km->action)\<close> has the cases 0 and 1 and no default.
\<close>

fun keymap_walk ::
  "(nat \<Rightarrow> u32) \<Rightarrow> key_mapping list \<Rightarrow> s32 \<Rightarrow> s32 \<Rightarrow> stealth_device \<Rightarrow> stealth_device" where
  "keymap_walk rnd [] keycode pressed dev = dev"
| "keymap_walk rnd (km # kms) keycode pressed dev =
     (if km_keycode km = keycode then
        (if pressed \<noteq> 0 then
           (if km_action km = 0 then
              send_touch_event_safe rnd (km_slot km) (click_x km) (click_y km) 0
                (msleep (click_duration km)
                  (send_touch_event_safe rnd (km_slot km) (click_x km) (click_y km) 100 dev))
            else if km_action km = 1 then
              send_touch_event_safe rnd (km_slot km) (hold_x km) (hold_y km) (hold_pressure km) dev
            else dev)
         else if km_instant_release km \<noteq> 0 then
           send_touch_event_safe rnd (km_slot km) 0 0 0 dev
         else dev)
      else keymap_walk rnd kms keycode pressed dev)"

definition handle_key_mapping ::
  "(nat \<Rightarrow> u32) \<Rightarrow> s32 \<Rightarrow> s32 \<Rightarrow> stealth_device \<Rightarrow> stealth_device option" where
  "handle_key_mapping rnd keycode pressed dev =
     (let cfg = config dev in
      if keycode = mode_switch_key cfg \<and> pressed \<noteq> 0 then
        Some (dev\<lparr>config := cfg\<lparr>current_mode := smod32 (current_mode cfg + 1) 4\<rparr>\<rparr>)
      else
        case (if current_mode cfg = MODE_JOYSTICK then update_joystick_state rnd keycode pressed dev
              else if current_mode cfg = MODE_CURSOR then Some (cursor_mode_key rnd keycode pressed dev)
              else Some dev) of
          None \<Rightarrow> None
        | Some dev1 \<Rightarrow>
            Some (keymap_walk rnd (keymap_list (config dev1)) keycode pressed dev1))"

section \<open>Command processing\<close>

datatype error = EINVAL

text \<open>
  One optional field of SET_JOYSTICK and SET_SLIDE_KEY:
  \<^verbatim>\<open>if (offset + 4 <= len) { tmp = get_unaligned_le32(data + offset); offset += 4; field = (int)tmp; }\<close>
  on the pair of the running offset and the sub-struct.
\<close>

definition read_field :: "u8 list \<Rightarrow> (u32 \<Rightarrow> 'a \<Rightarrow> 'a) \<Rightarrow> nat \<times> 'a \<Rightarrow> nat \<times> 'a" where
  "read_field data store oc =
     (case oc of (offset, c) \<Rightarrow>
        if offset + 4 \<le> length data
        then (offset + 4, store (get_unaligned_le32 data offset) c)
        else (offset, c))"

definition set_joystick_fields :: "u8 list \<Rightarrow> joystick_t \<Rightarrow> joystick_t" where
  "set_joystick_fields data js =
     snd (read_field data (\<lambda>v j. j\<lparr>joy_enabled := v\<rparr>)
         (read_field data (\<lambda>v j. j\<lparr>joy_move_slot := v\<rparr>)
         (read_field data (\<lambda>v j. j\<lparr>joy_deadzone := v\<rparr>)
         (read_field data (\<lambda>v j. j\<lparr>joy_radius := v\<rparr>)
         (read_field data (\<lambda>v j. j\<lparr>joy_center_y := v\<rparr>)
         (read_field data (\<lambda>v j. j\<lparr>joy_center_x := v\<rparr>) (7, js)))))))"

definition set_slide_key_fields :: "u8 list \<Rightarrow> slide_key_t \<Rightarrow> slide_key_t" where
  "set_slide_key_fields data sk =
     snd (read_field data (\<lambda>v k. k\<lparr>sk_release_delay := v\<rparr>)
         (read_field data (\<lambda>v k. k\<lparr>sk_hold_time := v\<rparr>)
         (read_field data (\<lambda>v k. k\<lparr>sk_sensitivity := v\<rparr>)
         (read_field data (\<lambda>v k. k\<lparr>sk_max_radius := v\<rparr>)
         (read_field data (\<lambda>v k. k\<lparr>sk_slide_y := v\<rparr>)
         (read_field data (\<lambda>v k. k\<lparr>sk_slide_x := v\<rparr>)
         (read_field data (\<lambda>v k. k\<lparr>sk_trigger_key := v\<rparr>)
         (read_field data (\<lambda>v k. k\<lparr>sk_enabled := v\<rparr>) (7, sk)))))))))"

text \<open>
  The \<^verbatim>\<open>switch (cmd)\<close> of \<^verbatim>\<open>process_hidden_command\<close>: the value of \<^verbatim>\<open>ret\<close> (\<open>None\<close> is 0)
  and the configuration after it. \<open>jiffies\<close> is the tick counter at the call.
\<close>

definition dispatch_command ::
  "ulong \<Rightarrow> u8 \<Rightarrow> u8 list \<Rightarrow> stealth_config \<Rightarrow> error option \<times> stealth_config" where
  "dispatch_command jiffies cmd data cfg =
     (let len = length data in
      if cmd = CMD_ACTIVATE then (None, cfg\<lparr>activated := 1, activate_time := jiffies\<rparr>)
      else if cmd = CMD_DEACTIVATE then (None, cfg\<lparr>activated := 0\<rparr>)
      else if cmd = CMD_HEARTBEAT then (None, cfg\<lparr>activate_time := jiffies\<rparr>)
      else if cmd = CMD_SET_CONFIG then
        (if len < 15 then (Some EINVAL, cfg)
         else (None, cfg\<lparr>current_mode := get_unaligned_le32 data 7,
                          jitter_range := get_unaligned_le32 data 11\<rparr>))
      else if cmd = CMD_SET_MODE then
        (if len < 11 then (Some EINVAL, cfg)
         else (None, cfg\<lparr>current_mode := get_unaligned_le32 data 7\<rparr>))
      else if cmd = CMD_SET_SENSITIVITY then
        (if len < 11 then (Some EINVAL, cfg)
         else (None, cfg\<lparr>view := (view cfg)\<lparr>view_sensitivity :=
                            stealth_clamp (get_unaligned_le32 data 7) 1 10000\<rparr>\<rparr>))
      else if cmd = CMD_SET_JOYSTICK then
        (None, cfg\<lparr>joystick := set_joystick_fields data (joystick cfg)\<rparr>)
      else if cmd = CMD_SET_SLIDE_KEY then
        (None, cfg\<lparr>slide_key := set_slide_key_fields data (slide_key cfg)\<rparr>)
      else if cmd = CMD_SET_KEY_MAPPING then
        (if 11 \<le> len then
           (if get_unaligned_le32 data 7 \<noteq> 0
            then (None, cfg\<lparr>stats_clicks := stats_clicks cfg + 1\<rparr>)
            else (None, cfg))
         else (Some EINVAL, cfg))
      else (Some EINVAL, cfg))"

text \<open>
  \<^verbatim>\<open>process_hidden_command(data, len)\<close> with \<open>len = length data\<close>: the return value and the
  device after the call. The CRC is taken over \<^verbatim>\<open>data + 6\<close>, \<^verbatim>\<open>len - 6\<close> bytes.
\<close>

definition process_hidden_command ::
  "ulong \<Rightarrow> u8 list \<Rightarrow> stealth_device \<Rightarrow> error option \<times> stealth_device" where
  "process_hidden_command jiffies data dev =
     (if length data < 7 then (Some EINVAL, dev)
      else
        let magic_val = get_unaligned_le32 data 0;
            crc_val = get_unaligned_le16 data 4;
            cmd = data ! 6
        in if magic_val \<noteq> MAGIC_SIGNATURE then (Some EINVAL, dev)
           else if crc_val \<noteq> simple_crc16 (drop 6 data) then (Some EINVAL, dev)
           else
             case dispatch_command jiffies cmd data (config dev) of
               (ret, cfg1) \<Rightarrow>
                 (ret, dev\<lparr>config := (if ret = None
                                       then cfg1\<lparr>stats_commands := stats_commands cfg1 + 1\<rparr>
                                       else cfg1)\<rparr>))"

section \<open>Watchdog and worker\<close>

text \<open>
  \<^verbatim>\<open>heartbeat_timer_callback\<close> at tick \<open>jiffies\<close>. \<open>HZ\<close>, the kernel's ticks per second, is
  a constant of the kernel configuration and a parameter here. The cast
  \<^verbatim>\<open>(unsigned long)heartbeat_interval\<close> extends the sign. Re-arming the timer changes
  nothing in the device.
\<close>

definition heartbeat_timer_callback :: "ulong \<Rightarrow> ulong \<Rightarrow> stealth_device \<Rightarrow> stealth_device" where
  "heartbeat_timer_callback HZ jiffies dev =
     (let cfg = config dev in
      if activated cfg \<noteq> 0 then
        let now = jiffies;
            interval = now - activate_time cfg;
            hb_interval = (scast (heartbeat_interval cfg) :: ulong)
        in if 0 < hb_interval \<and> hb_interval * HZ < interval
           then dev\<lparr>config := cfg\<lparr>activated := 0\<rparr>\<rparr>
           else dev
      else dev)"

text \<open>One round of the loop of \<^verbatim>\<open>stealth_worker\<close>, after its sleep.\<close>

definition stealth_worker :: "stealth_device \<Rightarrow> stealth_device" where
  "stealth_worker dev =
     (let cfg = config dev in
      if 10000 < stats_commands cfg
      then dev\<lparr>config := cfg\<lparr>stats_moves := 0, stats_clicks := 0,
                             stats_slides := 0, stats_commands := 0\<rparr>\<rparr>
      else dev)"

section \<open>Initialisation\<close>

text \<open>
  \<^verbatim>\<open>stealth_driver_init\<close> when every registration succeeds: the device comes zeroed from
  \<^verbatim>\<open>kzalloc\<close>, then the listed fields are assigned.
\<close>

definition zero_slide_key :: slide_key_t where
  "zero_slide_key = \<lparr>sk_enabled = 0, sk_trigger_key = 0, sk_slide_x = 0, sk_slide_y = 0,
     sk_max_radius = 0, sk_sensitivity = 0, sk_require_shift = 0, sk_shift_key = 0,
     sk_active = 0, sk_sliding = 0, sk_current_x = 0, sk_current_y = 0, sk_hold_time = 0,
     sk_release_delay = 0\<rparr>"

definition zero_cursor :: cursor_t where
  "zero_cursor = \<lparr>cur_speed = 0, cur_left_click_x = 0, cur_left_click_y = 0,
     cur_right_click_x = 0, cur_right_click_y = 0, cur_current_x = 0, cur_current_y = 0,
     cur_active = 0, cur_last_key = 0\<rparr>"

definition zero_view :: view_t where
  "zero_view = \<lparr>view_center_x = 0, view_center_y = 0, view_max_radius = 0, view_deadzone = 0,
     view_sensitivity = 0, view_auto_release_time = 0, view_active = 0, view_current_x = 0,
     view_current_y = 0, view_last_dx = 0, view_last_dy = 0\<rparr>"

definition zero_joystick :: joystick_t where
  "zero_joystick = \<lparr>joy_enabled = 0, joy_center_x = 0, joy_center_y = 0, joy_radius = 0,
     joy_deadzone = 0, joy_active = 0, joy_current_x = 0, joy_current_y = 0, joy_move_slot = 0,
     joy_key_up = 0, joy_key_down = 0, joy_key_left = 0, joy_key_right = 0,
     joy_key_states = 0\<rparr>"

definition zero_config :: stealth_config where
  "zero_config = \<lparr>activated = 0, activate_time = 0, screen_width = 0, screen_height = 0,
     max_touch_points = 0, slide_key = zero_slide_key, cursor = zero_cursor, view = zero_view,
     joystick = zero_joystick, keymap_list = [], current_mode = 0, jitter_range = 0,
     stealth_level = 0, initialized = 0, heartbeat_interval = 0, mode_switch_key = 0,
     enable_instant_release = 0, stats_moves = 0, stats_clicks = 0, stats_slides = 0,
     stats_commands = 0\<rparr>"

definition init_config :: stealth_config where
  "init_config = zero_config
     \<lparr>activated := 0, screen_width := 2800, screen_height := 2000, max_touch_points := 10,
      slide_key := zero_slide_key
        \<lparr>sk_enabled := 1, sk_trigger_key := 56, sk_slide_x := 1400, sk_slide_y := 1000,
         sk_max_radius := 200, sk_sensitivity := 100, sk_hold_time := 50\<rparr>,
      cursor := zero_cursor
        \<lparr>cur_speed := 5, cur_left_click_x := 2100, cur_left_click_y := 1800,
         cur_right_click_x := 2000, cur_right_click_y := 1800, cur_current_x := 1400,
         cur_current_y := 1000\<rparr>,
      view := zero_view
        \<lparr>view_center_x := 1400, view_center_y := 1000, view_max_radius := 300,
         view_deadzone := 20, view_sensitivity := 100\<rparr>,
      joystick := zero_joystick
        \<lparr>joy_enabled := 1, joy_center_x := 700, joy_center_y := 1500, joy_radius := 150,
         joy_deadzone := 10, joy_move_slot := 3, joy_key_up := 17, joy_key_down := 31,
         joy_key_left := 30, joy_key_right := 32\<rparr>,
      current_mode := MODE_SILENT, jitter_range := 2, stealth_level := 5,
      mode_switch_key := 59, enable_instant_release := 1, heartbeat_interval := 30,
      initialized := 1\<rparr>"

definition stealth_driver_init :: stealth_device where
  "stealth_driver_init = \<lparr>input_dev = True, config = init_config, emitted = [], rand_calls = 0\<rparr>"

section \<open>Runs of the driver\<close>

text \<open>
  The four things that happen to a running driver: a command buffer reaches
  \<^verbatim>\<open>process_hidden_command\<close>, a key event reaches \<^verbatim>\<open>handle_key_mapping\<close>, the watchdog
  timer fires, the worker makes a round. A run is \<open>None\<close> when a step is undefined.
\<close>

datatype op =
  Command "u8 list" ulong
| Key_event s32 s32
| Timer_tick ulong
| Worker_tick

fun apply_op :: "(nat \<Rightarrow> u32) \<Rightarrow> ulong \<Rightarrow> op \<Rightarrow> stealth_device \<Rightarrow> stealth_device option" where
  "apply_op rnd HZ (Command data jiffies) dev = Some (snd (process_hidden_command jiffies data dev))"
| "apply_op rnd HZ (Key_event keycode pressed) dev = handle_key_mapping rnd keycode pressed dev"
| "apply_op rnd HZ (Timer_tick jiffies) dev = Some (heartbeat_timer_callback HZ jiffies dev)"
| "apply_op rnd HZ Worker_tick dev = Some (stealth_worker dev)"

fun run :: "(nat \<Rightarrow> u32) \<Rightarrow> ulong \<Rightarrow> op list \<Rightarrow> stealth_device \<Rightarrow> stealth_device option" where
  "run rnd HZ [] dev = Some dev"
| "run rnd HZ (x # xs) dev =
     (case apply_op rnd HZ x dev of None \<Rightarrow> None | Some dev1 \<Rightarrow> run rnd HZ xs dev1)"

section \<open>Notions of the specification\<close>

text \<open>
  The progressive-prefix update in the specification's words: the first \<open>K\<close> optional
  fields take the payload's values (field \<open>i\<close>, counted from 0, is the little-endian
  word at offset \<open>7 + 4 * i\<close>), the others keep their value. To be compared with
  \<open>set_joystick_fields\<close> and \<open>set_slide_key_fields\<close>, which follow the source.
\<close>

definition payload_field :: "u8 list \<Rightarrow> nat \<Rightarrow> u32" where
  "payload_field data i = get_unaligned_le32 data (7 + 4 * i)"

definition joystick_prefix_update :: "nat \<Rightarrow> u8 list \<Rightarrow> joystick_t \<Rightarrow> joystick_t" where
  "joystick_prefix_update K data js = js
     \<lparr>joy_center_x := (if 0 < K then payload_field data 0 else joy_center_x js),
      joy_center_y := (if 1 < K then payload_field data 1 else joy_center_y js),
      joy_radius := (if 2 < K then payload_field data 2 else joy_radius js),
      joy_deadzone := (if 3 < K then payload_field data 3 else joy_deadzone js),
      joy_move_slot := (if 4 < K then payload_field data 4 else joy_move_slot js),
      joy_enabled := (if 5 < K then payload_field data 5 else joy_enabled js)\<rparr>"

definition slide_key_prefix_update :: "nat \<Rightarrow> u8 list \<Rightarrow> slide_key_t \<Rightarrow> slide_key_t" where
  "slide_key_prefix_update K data sk = sk
     \<lparr>sk_enabled := (if 0 < K then payload_field data 0 else sk_enabled sk),
      sk_trigger_key := (if 1 < K then payload_field data 1 else sk_trigger_key sk),
      sk_slide_x := (if 2 < K then payload_field data 2 else sk_slide_x sk),
      sk_slide_y := (if 3 < K then payload_field data 3 else sk_slide_y sk),
      sk_max_radius := (if 4 < K then payload_field data 4 else sk_max_radius sk),
      sk_sensitivity := (if 5 < K then payload_field data 5 else sk_sensitivity sk),
      sk_hold_time := (if 6 < K then payload_field data 6 else sk_hold_time sk),
      sk_release_delay := (if 7 < K then payload_field data 7 else sk_release_delay sk)\<rparr>"

text \<open>A frame that passes the three checks of the header.\<close>

definition valid_frame :: "u8 list \<Rightarrow> bool" where
  "valid_frame data \<longleftrightarrow>
     7 \<le> length data \<and> get_unaligned_le32 data 0 = MAGIC_SIGNATURE
     \<and> get_unaligned_le16 data 4 = simple_crc16 (drop 6 data)"

text \<open>The four modes.\<close>

definition mode_valid :: "s32 \<Rightarrow> bool" where
  "mode_valid m \<longleftrightarrow> m = MODE_CURSOR \<or> m = MODE_VIEW \<or> m = MODE_JOYSTICK \<or> m = MODE_SILENT"

text \<open>
  An operation that does not carry a mode outside the four: every operation but an
  accepted SET_MODE or SET_CONFIG command (a valid frame of at least 11, respectively
  15, bytes) whose mode word is not a mode.
\<close>

fun carries_valid_mode :: "op \<Rightarrow> bool" where
  "carries_valid_mode (Command data jiffies) =
     (if valid_frame data
         \<and> (data ! 6 = CMD_SET_MODE \<and> 11 \<le> length data
            \<or> data ! 6 = CMD_SET_CONFIG \<and> 15 \<le> length data)
      then mode_valid (get_unaligned_le32 data 7) else True)"
| "carries_valid_mode (Key_event keycode pressed) = True"
| "carries_valid_mode (Timer_tick jiffies) = True"
| "carries_valid_mode Worker_tick = True"

text \<open>
  The distance of the joystick position from the configured centre, as the driver
  measures it: the integer square root of the sum of the squared differences.
\<close>

definition joystick_distance :: "joystick_t \<Rightarrow> s32" where
  "joystick_distance js =
     fast_sqrt ((joy_current_x js - joy_center_x js) * (joy_current_x js - joy_center_x js)
              + (joy_current_y js - joy_center_y js) * (joy_current_y js - joy_center_y js))"

definition view_distance :: "view_t \<Rightarrow> s32" where
  "view_distance v =
     fast_sqrt ((view_current_x v - view_center_x v) * (view_current_x v - view_center_x v)
              + (view_current_y v - view_center_y v) * (view_current_y v - view_center_y v))"

text \<open>The parts of the device that no operation writes after initialisation.\<close>

definition static_config :: "stealth_device \<Rightarrow> bool \<times> s32 \<times> s32 \<times> s32" where
  "static_config dev =
     (input_dev dev, screen_width (config dev), screen_height (config dev),
      heartbeat_interval (config dev))"

section \<open>Inputs used in the examples\<close>

text \<open>
  Frames with the magic constant and the right CRC: ACTIVATE, HEARTBEAT, SET_CONFIG with
  mode 0 and jitter 0, SET_MODE with the values 7 and 2, SET_CONFIG with mode 7 and
  jitter 0, SET_JOYSTICK with no field and
  with two fields (800, 1200) and one more byte, SET_JOYSTICK with three fields
  (800, 1200, 32768), SET_SLIDE_KEY with three fields (0, 57, 10000) and two more bytes.
\<close>

definition frame_activate :: "u8 list" where
  "frame_activate = [0x53, 0x49, 0x44, 0x51, 0xBE, 0xFE, 0xA8]"

definition frame_heartbeat :: "u8 list" where
  "frame_heartbeat = [0x53, 0x49, 0x44, 0x51, 0x3F, 0x3F, 0xAA]"

definition frame_config_no_jitter :: "u8 list" where
  "frame_config_no_jitter =
     [0x53, 0x49, 0x44, 0x51, 0xD9, 0x57, 0xA6, 0, 0, 0, 0, 0, 0, 0, 0]"

definition frame_mode_7 :: "u8 list" where
  "frame_mode_7 = [0x53, 0x49, 0x44, 0x51, 0x54, 0xAD, 0xA4, 7, 0, 0, 0]"

definition frame_config_mode_7 :: "u8 list" where
  "frame_config_mode_7 =
     [0x53, 0x49, 0x44, 0x51, 0x98, 0xB1, 0xA6, 7, 0, 0, 0, 0, 0, 0, 0]"

definition frame_mode_joystick :: "u8 list" where
  "frame_mode_joystick = [0x53, 0x49, 0x44, 0x51, 0x54, 0x61, 0xA4, 2, 0, 0, 0]"

definition frame_joystick_empty :: "u8 list" where
  "frame_joystick_empty = [0x53, 0x49, 0x44, 0x51, 0x7F, 0x3B, 0xA5]"

definition frame_joystick_two :: "u8 list" where
  "frame_joystick_two =
     [0x53, 0x49, 0x44, 0x51, 0xBF, 0xEB, 0xA5, 0x20, 0x03, 0, 0, 0xB0, 0x04, 0, 0, 0xFF]"

definition frame_joystick_radius :: "u8 list" where
  "frame_joystick_radius =
     [0x53, 0x49, 0x44, 0x51, 0x4E, 0xE8, 0xA5,
      0x20, 0x03, 0, 0, 0xB0, 0x04, 0, 0, 0, 0x80, 0, 0]"

definition frame_slide_key_three :: "u8 list" where
  "frame_slide_key_three =
     [0x53, 0x49, 0x44, 0x51, 0x47, 0xD1, 0xA1, 0, 0, 0, 0, 57, 0, 0, 0, 0x10, 0x27, 0, 0, 1, 2]"

text \<open>The initialised device with the activation flag set, and two mappings.\<close>

definition activated_device :: stealth_device where
  "activated_device = stealth_driver_init\<lparr>config := init_config\<lparr>activated := 1\<rparr>\<rparr>"

definition tap_mapping :: key_mapping where
  "tap_mapping = \<lparr>km_keycode = 30, km_key_name = [], km_action = 0, km_instant_release = 0,
     km_slot = 1, km_params0 = 500, km_params1 = 600, km_params2 = 20, km_params3 = 0,
     km_params4 = 0\<rparr>"

definition swipe_mapping :: key_mapping where
  "swipe_mapping = \<lparr>km_keycode = 45, km_key_name = [], km_action = 2, km_instant_release = 0,
     km_slot = 2, km_params0 = 100, km_params1 = 100, km_params2 = 900, km_params3 = 100,
     km_params4 = 300\<rparr>"

text \<open>The initialised device after an ACTIVATE and a SET_CONFIG with mode 0 and jitter 0.\<close>

definition no_jitter_device :: stealth_device where
  "no_jitter_device = stealth_driver_init
     \<lparr>config := init_config\<lparr>activated := 1, activate_time := 0, current_mode := 0,
                             jitter_range := 0, stats_commands := 2\<rparr>\<rparr>"

text \<open>The initialised device after an ACTIVATE at tick 1000.\<close>

definition watchdog_device :: stealth_device where
  "watchdog_device = stealth_driver_init
     \<lparr>config := init_config\<lparr>activated := 1, activate_time := 1000, stats_commands := 1\<rparr>\<rparr>"

text \<open>
  The initialised device after SET_MODE with the value 7, after SET_CONFIG with mode 7 and
  jitter 0, and after SET_MODE with the value 2 followed by a press of the mode-switch key.
\<close>

definition mode_7_device :: stealth_device where
  "mode_7_device = stealth_driver_init
     \<lparr>config := init_config\<lparr>current_mode := 7, stats_commands := 1\<rparr>\<rparr>"

definition config_7_device :: stealth_device where
  "config_7_device = stealth_driver_init
     \<lparr>config := init_config\<lparr>current_mode := 7, jitter_range := 0, stats_commands := 1\<rparr>\<rparr>"

definition mode_silent_device :: stealth_device where
  "mode_silent_device = stealth_driver_init
     \<lparr>config := init_config\<lparr>current_mode := 3, stats_commands := 1\<rparr>\<rparr>"

text \<open>
  The initialised device after the SET_JOYSTICK frame with two fields, and after the
  SET_SLIDE_KEY frame with three fields.
\<close>

definition joystick_two_device :: stealth_device where
  "joystick_two_device = stealth_driver_init
     \<lparr>config := init_config
        \<lparr>joystick := (joystick init_config)\<lparr>joy_center_x := 800, joy_center_y := 1200\<rparr>,
         stats_commands := 1\<rparr>\<rparr>"

definition slide_key_three_device :: stealth_device where
  "slide_key_three_device = stealth_driver_init
     \<lparr>config := init_config
        \<lparr>slide_key := (slide_key init_config)
           \<lparr>sk_enabled := 0, sk_trigger_key := 57, sk_slide_x := 10000\<rparr>,
         stats_commands := 1\<rparr>\<rparr>"





text \<open>
  The initialised device after SET_MODE with the value 2 (joystick mode) and a press of the
  up key (17), and after the press of the right key (32) that follows.
\<close>

definition up_device :: stealth_device where
  "up_device = stealth_driver_init
     \<lparr>config := init_config
        \<lparr>joystick := (joystick init_config)
           \<lparr>joy_key_states := 1, joy_current_x := 700, joy_current_y := 1350,
            joy_active := 1\<rparr>,
         current_mode := 2, stats_commands := 1\<rparr>\<rparr>"

definition diagonal_device :: stealth_device where
  "diagonal_device = stealth_driver_init
     \<lparr>config := init_config
        \<lparr>joystick := (joystick init_config)
           \<lparr>joy_key_states := 9, joy_current_x := 806, joy_current_y := 1394,
            joy_active := 1\<rparr>,
         current_mode := 2, stats_commands := 1\<rparr>\<rparr>"

section \<open>Validation of the header\<close>

lemma crc_activate: "simple_crc16 [0xA8] = 0xFEBE"
  by code_simp

text \<open>
  Claim C1. A buffer shorter than 7 bytes, or whose first four bytes (little-endian) are
  not the magic constant, or whose bytes 4 and 5 are not the CRC16 of the bytes from
  offset 6 on, is rejected with \<open>EINVAL\<close>, and the device after the call is the device
  before it: nothing of the Config Store changes, no counter moves. The checks are the
  first three tests of \<open>process_hidden_command\<close>, in this order, and all three return
  the same error.
\<close>

theorem validation_failure_rejects:
  "length data < 7
   \<or> get_unaligned_le32 data 0 \<noteq> MAGIC_SIGNATURE
   \<or> get_unaligned_le16 data 4 \<noteq> simple_crc16 (drop 6 data)
   \<Longrightarrow> process_hidden_command jiffies data dev = (Some EINVAL, dev)"
  by (auto simp: process_hidden_command_def Let_def)

theorem validation_failure_rejects_witness:
  "length [0x53, 0x49, 0x44, 0x51, 0xBE, 0xFE :: u8] < 7
   \<and> process_hidden_command 0 [0x53, 0x49, 0x44, 0x51, 0xBE, 0xFE] stealth_driver_init
     = (Some EINVAL, stealth_driver_init)
   \<and> get_unaligned_le32 [0x53, 0x49, 0x44, 0x50, 0xBE, 0xFE, 0xA8] 0 \<noteq> MAGIC_SIGNATURE
   \<and> process_hidden_command 0 [0x53, 0x49, 0x44, 0x50, 0xBE, 0xFE, 0xA8] stealth_driver_init
     = (Some EINVAL, stealth_driver_init)
   \<and> get_unaligned_le16 [0x53, 0x49, 0x44, 0x51, 0xBE, 0xFF, 0xA8] 4
       \<noteq> simple_crc16 (drop 6 [0x53, 0x49, 0x44, 0x51, 0xBE, 0xFF, 0xA8])
   \<and> process_hidden_command 0 [0x53, 0x49, 0x44, 0x51, 0xBE, 0xFF, 0xA8] stealth_driver_init
     = (Some EINVAL, stealth_driver_init)
   \<and> fst (process_hidden_command 0 frame_activate stealth_driver_init) = None"
proof -
  have a: "process_hidden_command 0 [0x53, 0x49, 0x44, 0x51, 0xBE, 0xFE] stealth_driver_init
     = (Some EINVAL, stealth_driver_init)"
    using validation_failure_rejects
      [of "[0x53, 0x49, 0x44, 0x51, 0xBE, 0xFE]" 0 stealth_driver_init]
    by simp
  have b1: "get_unaligned_le32 [0x53, 0x49, 0x44, 0x50, 0xBE, 0xFE, 0xA8] 0 \<noteq> MAGIC_SIGNATURE"
    by (simp add: get_unaligned_le32_def MAGIC_SIGNATURE_def)
  have b: "process_hidden_command 0 [0x53, 0x49, 0x44, 0x50, 0xBE, 0xFE, 0xA8] stealth_driver_init
     = (Some EINVAL, stealth_driver_init)"
    using validation_failure_rejects
      [of "[0x53, 0x49, 0x44, 0x50, 0xBE, 0xFE, 0xA8]" 0 stealth_driver_init] b1
    by simp
  have c1: "get_unaligned_le16 [0x53, 0x49, 0x44, 0x51, 0xBE, 0xFF, 0xA8] 4
       \<noteq> simple_crc16 (drop 6 [0x53, 0x49, 0x44, 0x51, 0xBE, 0xFF, 0xA8])"
    by (simp add: get_unaligned_le16_def crc_activate)
  have c: "process_hidden_command 0 [0x53, 0x49, 0x44, 0x51, 0xBE, 0xFF, 0xA8] stealth_driver_init
     = (Some EINVAL, stealth_driver_init)"
    using validation_failure_rejects
      [of "[0x53, 0x49, 0x44, 0x51, 0xBE, 0xFF, 0xA8]" 0 stealth_driver_init] c1
    by simp
  have d: "fst (process_hidden_command 0 frame_activate stealth_driver_init) = None"
    by (simp add: process_hidden_command_def get_unaligned_le32_def get_unaligned_le16_def
        MAGIC_SIGNATURE_def crc_activate dispatch_command_def CMD_ACTIVATE_def
        frame_activate_def)
  from a b1 b c1 c d show ?thesis by simp
qed

section \<open>Activation gate of the injection engine\<close>

text \<open>
  Claim C2. A call of \<^verbatim>\<open>send_touch_event_safe\<close> while \<open>activated\<close> is 0 returns at once,
  whatever the slot, the coordinates and the pressure: the device is the same afterwards,
  in particular nothing is added to the effects on the input sink.
\<close>

theorem inactive_emits_nothing:
  "activated (config dev) = 0 \<Longrightarrow> send_touch_event_safe rnd slot x y pressure dev = dev"
  by (simp add: send_touch_event_safe_def)

theorem inactive_emits_nothing_witness:
  "activated (config stealth_driver_init) = 0
   \<and> send_touch_event_safe (\<lambda>n. 0) 0 1400 1000 100 stealth_driver_init = stealth_driver_init"
  using inactive_emits_nothing [of stealth_driver_init "\<lambda>n. 0" 0 1400 1000 100]
  by (simp add: stealth_driver_init_def init_config_def zero_config_def)

section \<open>The key-mapping list\<close>

text \<open>
  Claim C10. When the first node of the mapping list with the event's keycode has an
  action other than 0 (tap) and 1 (hold), such as a swipe, the walk over the list leaves
  the device as it is on a press: no touch event is emitted. On a release the only thing
  it can do is the instant release of that node.
\<close>

theorem unhandled_action_emits_nothing:
  "\<forall>k \<in> set pre. km_keycode k \<noteq> keycode \<Longrightarrow> km_keycode km = keycode \<Longrightarrow>
   km_action km \<noteq> 0 \<Longrightarrow> km_action km \<noteq> 1 \<Longrightarrow>
   keymap_walk rnd (pre @ km # post) keycode pressed dev =
     (if pressed \<noteq> 0 then dev
      else if km_instant_release km \<noteq> 0 then send_touch_event_safe rnd (km_slot km) 0 0 0 dev
      else dev)"
  by (induction pre) auto

theorem unhandled_action_emits_nothing_witness:
  "km_keycode tap_mapping \<noteq> 45 \<and> km_keycode swipe_mapping = 45
   \<and> km_action swipe_mapping \<noteq> 0 \<and> km_action swipe_mapping \<noteq> 1
   \<and> keymap_walk (\<lambda>n. 0) ([tap_mapping] @ swipe_mapping # []) 45 1 activated_device
       = activated_device"
  using unhandled_action_emits_nothing
    [of "[tap_mapping]" 45 swipe_mapping "\<lambda>n. 0" "[]" 1 activated_device]
  by (simp add: tap_mapping_def swipe_mapping_def)

section \<open>The integer square root\<close>

text \<open>
  Claim C9. The square root of \<open>2 ^ 30 = 32768 * 32768\<close> is 32768, but \<^verbatim>\<open>fast_sqrt\<close> returns
  65535 there: once \<open>y\<close> is 32768, every further \<^verbatim>\<open>y_plus_b * y_plus_b\<close> exceeds the range of
  \<^verbatim>\<open>int\<close>, wraps to a negative number and passes the test \<^verbatim>\<open><= x\<close>.
\<close>

theorem fast_sqrt_wraps:
  "fast_sqrt 1073741824 = 65535 \<and> (32768 :: int) * 32768 = 1073741824"
  by (rule conjI, code_simp, simp)

text \<open>
  The driver reaches this input: after SET_JOYSTICK has set the radius to 32768, a press
  of the up key in joystick mode gives the displacement (0, -32768), whose squared length
  is \<open>2 ^ 30\<close>. The distance comes out as 65535, above the radius, and the position is
  rescaled to 16384 above the centre, although it was exactly on the circle.
\<close>

lemma joystick_reaches_overflow:
  "map_option (\<lambda>dev. (joy_center_y (joystick (config dev)), joy_radius (joystick (config dev)),
                        joy_current_y (joystick (config dev))))
     (run (\<lambda>n. 0) 250
        [Command frame_mode_joystick 0, Command frame_joystick_radius 0, Key_event 17 1]
        stealth_driver_init)
   = Some (1200, 32768, - 15184)"
  by code_simp

section \<open>What the operations leave alone\<close>

lemma send_static [simp]:
  "static_config (send_touch_event_safe rnd slot x y p dev) = static_config dev"
  by (simp add: send_touch_event_safe_def static_config_def Let_def)

lemma send_mode [simp]:
  "current_mode (config (send_touch_event_safe rnd slot x y p dev)) = current_mode (config dev)"
  by (simp add: send_touch_event_safe_def Let_def)

lemma msleep_static [simp]: "static_config (msleep ms dev) = static_config dev"
  by (simp add: msleep_def static_config_def)

lemma msleep_config [simp]: "config (msleep ms dev) = config dev"
  by (simp add: msleep_def)

lemma keymap_walk_static [simp]:
  "static_config (keymap_walk rnd kms keycode pressed dev) = static_config dev"
  by (induction kms) simp_all

lemma keymap_walk_mode [simp]:
  "current_mode (config (keymap_walk rnd kms keycode pressed dev)) = current_mode (config dev)"
  by (induction kms) simp_all

lemma set_cursor_static [simp]: "static_config (set_cursor f dev) = static_config dev"
  by (simp add: set_cursor_def static_config_def)

lemma set_cursor_mode [simp]:
  "current_mode (config (set_cursor f dev)) = current_mode (config dev)"
  by (simp add: set_cursor_def)

lemma cursor_mode_key_static [simp]:
  "static_config (cursor_mode_key rnd keycode pressed dev) = static_config dev"
  by (simp add: cursor_mode_key_def Let_def)

lemma cursor_mode_key_mode [simp]:
  "current_mode (config (cursor_mode_key rnd keycode pressed dev)) = current_mode (config dev)"
  by (simp add: cursor_mode_key_def Let_def)

lemma joystick_update_static [simp]:
  "static_config (dev\<lparr>config := (config dev)\<lparr>joystick := j\<rparr>\<rparr>) = static_config dev"
  by (simp add: static_config_def)

lemma update_joystick_static:
  "update_joystick_state rnd keycode pressed dev = Some dev' \<Longrightarrow>
   static_config dev' = static_config dev"
  by (auto simp: update_joystick_state_def Let_def
      split: if_splits prod.splits option.splits)

lemma update_joystick_mode:
  "update_joystick_state rnd keycode pressed dev = Some dev' \<Longrightarrow>
   current_mode (config dev') = current_mode (config dev)"
  by (auto simp: update_joystick_state_def Let_def
      split: if_splits prod.splits option.splits)

lemma handle_key_mapping_static:
  "handle_key_mapping rnd keycode pressed dev = Some dev' \<Longrightarrow>
   static_config dev' = static_config dev"
  by (auto simp: handle_key_mapping_def Let_def update_joystick_static
      split: if_splits option.splits) (simp add: static_config_def)

lemma handle_key_mapping_mode:
  "handle_key_mapping rnd keycode pressed dev = Some dev' \<Longrightarrow>
   current_mode (config dev') =
     (if keycode = mode_switch_key (config dev) \<and> pressed \<noteq> 0
      then smod32 (current_mode (config dev) + 1) 4 else current_mode (config dev))"
  by (auto simp: handle_key_mapping_def Let_def update_joystick_mode
      split: if_splits option.splits)

lemma dispatch_command_static:
  "dispatch_command jiffies cmd data cfg = (ret, cfg') \<Longrightarrow>
   screen_width cfg' = screen_width cfg \<and> screen_height cfg' = screen_height cfg
   \<and> heartbeat_interval cfg' = heartbeat_interval cfg"
  by (auto simp: dispatch_command_def Let_def split: if_splits)

lemma process_hidden_command_static:
  "static_config (snd (process_hidden_command jiffies data dev)) = static_config dev"
  by (auto simp: process_hidden_command_def Let_def static_config_def
      dest: dispatch_command_static split: prod.splits)

lemma heartbeat_static [simp]:
  "static_config (heartbeat_timer_callback HZ jiffies dev) = static_config dev"
  by (simp add: heartbeat_timer_callback_def Let_def static_config_def)

lemma worker_static [simp]: "static_config (stealth_worker dev) = static_config dev"
  by (simp add: stealth_worker_def Let_def static_config_def)

lemma apply_op_static:
  "apply_op rnd HZ x dev = Some dev' \<Longrightarrow> static_config dev' = static_config dev"
  by (cases x) (auto simp: process_hidden_command_static handle_key_mapping_static)

lemma run_static:
  "run rnd HZ xs dev = Some dev' \<Longrightarrow> static_config dev' = static_config dev"
proof (induction xs arbitrary: dev)
  case Nil
  then show ?case by simp
next
  case (Cons x xs)
  then show ?case
    by (auto split: option.splits dest: apply_op_static)
qed

lemma reachable_static:
  assumes "run rnd HZ xs stealth_driver_init = Some dev"
  shows "input_dev dev" "screen_width (config dev) = 2800"
    "screen_height (config dev) = 2000" "heartbeat_interval (config dev) = 30"
  using run_static [OF assms]
  by (simp_all add: static_config_def stealth_driver_init_def init_config_def zero_config_def)

section \<open>Clamping of the emitted coordinates\<close>

lemma clamp_width: "0 \<le>s stealth_clamp v 0 2799 \<and> stealth_clamp v 0 2799 \<le>s 2799"
  by (simp add: stealth_clamp_def word_sle_eq word_sless_alt)

lemma clamp_height: "0 \<le>s stealth_clamp v 0 1999 \<and> stealth_clamp v 0 1999 \<le>s 1999"
  by (simp add: stealth_clamp_def word_sle_eq word_sless_alt)

lemma clamp_pressure_pos: "0 <s pressure \<Longrightarrow> 0 <s stealth_clamp pressure 0 255"
  by (simp add: stealth_clamp_def word_sle_eq word_sless_alt)

lemma crc_config_no_jitter: "simple_crc16 [0xA6, 0, 0, 0, 0, 0, 0, 0, 0] = 0x57D9"
  by code_simp

text \<open>
  Claim C3. In a state the driver can reach, the screen is 2800 by 2000 and the input
  device is there. If the service is activated there, a call of the injection engine
  with any slot, coordinates, pressure and random draw reports a position \<open>(x', y')\<close>
  with \<open>0 \<le> x' \<le> screen_width - 1\<close> and \<open>0 \<le> y' \<le> screen_height - 1\<close>, jitter
  included (for a release, pressure 0, no position is reported at all). With jitter off,
  a press requested at (5000, -100) is reported at (2799, 0).
\<close>

theorem emitted_coordinates_clamped:
  assumes reach: "run rnd HZ xs stealth_driver_init = Some dev"
    and act: "activated (config dev) \<noteq> 0"
  shows "(\<exists>x' y'. 0 \<le>s x' \<and> x' \<le>s screen_width (config dev) - 1
            \<and> 0 \<le>s y' \<and> y' \<le>s screen_height (config dev) - 1
            \<and> emitted (send_touch_event_safe rnd' slot x y pressure dev)
                = emitted dev @ touch_report slot x' y' (stealth_clamp pressure 0 255))
       \<and> screen_width (config dev) = 2800 \<and> screen_height (config dev) = 2000
       \<and> (jitter_range (config dev) \<le>s 0 \<and> 0 <s pressure \<longrightarrow>
            emitted (send_touch_event_safe rnd' slot 5000 (- 100) pressure dev)
              = emitted dev
                @ [Input_mt_slot slot, Input_mt_report_slot_state True,
                   Input_report_abs ABS_MT_POSITION_X 2799,
                   Input_report_abs ABS_MT_POSITION_Y 0,
                   Input_report_abs ABS_MT_PRESSURE (stealth_clamp pressure 0 255),
                   Input_report_abs ABS_MT_TOUCH_MAJOR 10,
                   Input_report_abs ABS_MT_TRACKING_ID slot,
                   Input_sync])"
proof -
  note st = reachable_static [OF reach]
  have first: "\<exists>x' y'. 0 \<le>s x' \<and> x' \<le>s screen_width (config dev) - 1
            \<and> 0 \<le>s y' \<and> y' \<le>s screen_height (config dev) - 1
            \<and> emitted (send_touch_event_safe rnd' slot x y pressure dev)
                = emitted dev @ touch_report slot x' y' (stealth_clamp pressure 0 255)"
    using st act clamp_width clamp_height
    by (auto simp: send_touch_event_safe_def Let_def)
  have second: "emitted (send_touch_event_safe rnd' slot 5000 (- 100) pressure dev)
      = emitted dev
        @ [Input_mt_slot slot, Input_mt_report_slot_state True,
           Input_report_abs ABS_MT_POSITION_X 2799,
           Input_report_abs ABS_MT_POSITION_Y 0,
           Input_report_abs ABS_MT_PRESSURE (stealth_clamp pressure 0 255),
           Input_report_abs ABS_MT_TOUCH_MAJOR 10,
           Input_report_abs ABS_MT_TRACKING_ID slot,
           Input_sync]"
    if "jitter_range (config dev) \<le>s 0" "0 <s pressure"
  proof -
    have nj: "\<not> 0 <s jitter_range (config dev)"
      using that(1) by (simp add: word_sle_eq word_sless_alt)
    have cx: "stealth_clamp 5000 0 2799 = 2799" and cy: "stealth_clamp (- 100) 0 1999 = 0"
      by (simp_all add: stealth_clamp_def word_sless_alt)
    show ?thesis
      using st act nj clamp_pressure_pos [OF that(2)]
      by (simp add: send_touch_event_safe_def Let_def touch_report_def cx cy)
  qed
  from first second st show ?thesis by blast
qed

lemma run_no_jitter:
  "run (\<lambda>n. 0) 250 [Command frame_activate 0, Command frame_config_no_jitter 0]
      stealth_driver_init = Some no_jitter_device"
  by (simp add: process_hidden_command_def get_unaligned_le32_def get_unaligned_le16_def
        MAGIC_SIGNATURE_def crc_activate crc_config_no_jitter dispatch_command_def
        CMD_ACTIVATE_def CMD_SET_CONFIG_def CMD_DEACTIVATE_def CMD_HEARTBEAT_def
        frame_activate_def frame_config_no_jitter_def no_jitter_device_def
        stealth_driver_init_def init_config_def zero_config_def)

theorem emitted_coordinates_clamped_witness:
  "run (\<lambda>n. 0) 250 [Command frame_activate 0, Command frame_config_no_jitter 0]
      stealth_driver_init = Some no_jitter_device
   \<and> activated (config no_jitter_device) \<noteq> 0
   \<and> jitter_range (config no_jitter_device) \<le>s 0 \<and> (0 :: s32) <s 100
   \<and> emitted (send_touch_event_safe (\<lambda>n. 0) 0 5000 (- 100) 100 no_jitter_device)
       = [Input_mt_slot 0, Input_mt_report_slot_state True,
          Input_report_abs ABS_MT_POSITION_X 2799,
          Input_report_abs ABS_MT_POSITION_Y 0,
          Input_report_abs ABS_MT_PRESSURE 100,
          Input_report_abs ABS_MT_TOUCH_MAJOR 10,
          Input_report_abs ABS_MT_TRACKING_ID 0,
          Input_sync]"
proof -
  have act: "activated (config no_jitter_device) \<noteq> 0"
    and nj: "jitter_range (config no_jitter_device) \<le>s 0"
    and em: "emitted no_jitter_device = []"
    by (simp_all add: no_jitter_device_def stealth_driver_init_def)
  have p: "(0 :: s32) <s 100" and cp: "stealth_clamp 100 0 255 = 100"
    by (simp_all add: stealth_clamp_def word_sless_alt)
  have "emitted (send_touch_event_safe (\<lambda>n. 0) 0 5000 (- 100) 100 no_jitter_device)
      = emitted no_jitter_device
        @ [Input_mt_slot 0, Input_mt_report_slot_state True,
           Input_report_abs ABS_MT_POSITION_X 2799,
           Input_report_abs ABS_MT_POSITION_Y 0,
           Input_report_abs ABS_MT_PRESSURE (stealth_clamp 100 0 255),
           Input_report_abs ABS_MT_TOUCH_MAJOR 10,
           Input_report_abs ABS_MT_TRACKING_ID 0,
           Input_sync]"
    using emitted_coordinates_clamped [OF run_no_jitter act, of "\<lambda>n. 0" 0 0 0 100] nj p
    by blast
  then show ?thesis
    using run_no_jitter act nj p by (simp add: em cp)
qed

section \<open>The watchdog\<close>

lemma crc_heartbeat: "simple_crc16 [0xAA] = 0x3F3F"
  by code_simp

lemma unat_mult_HZ:
  fixes HZ :: ulong
  assumes "HZ < 2 ^ 32" "k \<le> 100"
  shows "unat (of_nat k * HZ) = k * unat HZ"
proof -
  have h: "unat HZ < 2 ^ 32"
    using assms(1) by (simp add: word_less_nat_alt)
  have "k * unat HZ \<le> 100 * unat HZ"
    using assms(2) by simp
  also have "\<dots> < 2 ^ 64"
    using h by simp
  finally have lt: "k * unat HZ < 2 ^ 64" .
  have "unat (of_nat k :: ulong) = k"
    using assms(2) by (simp add: unat_of_nat)
  then show ?thesis
    using lt by (simp add: unat_word_ariths)
qed

lemma heartbeat_frame_effect:
  "process_hidden_command jiffies frame_heartbeat dev =
     (None, dev\<lparr>config := (config dev)\<lparr>activate_time := jiffies,
                    stats_commands := stats_commands (config dev) + 1\<rparr>\<rparr>)"
  by (simp add: process_hidden_command_def get_unaligned_le32_def get_unaligned_le16_def
        MAGIC_SIGNATURE_def crc_heartbeat dispatch_command_def
        CMD_ACTIVATE_def CMD_DEACTIVATE_def CMD_HEARTBEAT_def frame_heartbeat_def)

lemma tick_30:
  fixes HZ :: ulong
  assumes hb: "heartbeat_interval (config dev) = 30" and hz: "HZ < 2 ^ 32"
  shows "heartbeat_timer_callback HZ now dev =
           (if activated (config dev) \<noteq> 0
               \<and> 30 * unat HZ < unat (now - activate_time (config dev))
            then dev\<lparr>config := (config dev)\<lparr>activated := 0\<rparr>\<rparr> else dev)"
proof -
  have "unat (30 * HZ) = 30 * unat HZ"
    using unat_mult_HZ [OF hz, of 30] by simp
  then show ?thesis
    by (simp add: heartbeat_timer_callback_def Let_def hb word_less_nat_alt)
qed

text \<open>
  Claim C7. In a state the driver can reach the heartbeat interval is 30 seconds. A
  watchdog tick at tick \<open>now\<close> clears \<open>activated\<close> when the service is activated and more
  than \<open>heartbeat_interval * HZ\<close> ticks, that is more than \<open>heartbeat_interval\<close> seconds,
  have passed since \<open>activate_time\<close>; otherwise it changes nothing. So an activated
  service is deactivated by a tick 31 seconds after \<open>activate_time\<close>, and after a
  HEARTBEAT 20 seconds after \<open>activate_time\<close> every tick up to second 49 leaves it
  activated. \<open>HZ\<close> is positive and below \<open>2 ^ 32\<close>, so that the products do not wrap.
\<close>

theorem watchdog_tick:
  fixes HZ :: ulong
  assumes reach: "run rnd HZ xs stealth_driver_init = Some dev"
    and hz: "0 < HZ" "HZ < 2 ^ 32"
  shows "heartbeat_interval (config dev) = 30
       \<and> heartbeat_timer_callback HZ now dev =
           (if activated (config dev) \<noteq> 0
               \<and> unat (heartbeat_interval (config dev)) * unat HZ
                     < unat (now - activate_time (config dev))
            then dev\<lparr>config := (config dev)\<lparr>activated := 0\<rparr>\<rparr> else dev)
       \<and> (activated (config dev) \<noteq> 0 \<longrightarrow>
            activated (config (heartbeat_timer_callback HZ
                                 (activate_time (config dev) + 31 * HZ) dev)) = 0)
       \<and> (activated (config dev) \<noteq> 0 \<longrightarrow>
            (\<forall>k. 20 \<le> k \<and> k \<le> 49 \<longrightarrow>
               heartbeat_timer_callback HZ (activate_time (config dev) + of_nat k * HZ)
                 (snd (process_hidden_command (activate_time (config dev) + 20 * HZ)
                         frame_heartbeat dev))
               = snd (process_hidden_command (activate_time (config dev) + 20 * HZ)
                        frame_heartbeat dev)
               \<and> activated (config (snd (process_hidden_command
                     (activate_time (config dev) + 20 * HZ) frame_heartbeat dev))) \<noteq> 0))"
proof -
  have hb: "heartbeat_interval (config dev) = 30"
    by (rule reachable_static(4) [OF reach])
  have pos: "0 < unat HZ"
    using hz(1) by (simp add: word_less_nat_alt)
  have general: "heartbeat_timer_callback HZ now dev =
           (if activated (config dev) \<noteq> 0
               \<and> unat (heartbeat_interval (config dev)) * unat HZ
                     < unat (now - activate_time (config dev))
            then dev\<lparr>config := (config dev)\<lparr>activated := 0\<rparr>\<rparr> else dev)"
    using tick_30 [OF hb hz(2)] by (simp add: hb)
  have late: "activated (config (heartbeat_timer_callback HZ
                                 (activate_time (config dev) + 31 * HZ) dev)) = 0"
    if "activated (config dev) \<noteq> 0"
  proof -
    have "unat (31 * HZ) = 31 * unat HZ"
      using unat_mult_HZ [OF hz(2), of 31] by simp
    then show ?thesis
      using that pos by (simp add: tick_30 [OF hb hz(2)])
  qed
  have kept: "heartbeat_timer_callback HZ (activate_time (config dev) + of_nat k * HZ)
                 (snd (process_hidden_command (activate_time (config dev) + 20 * HZ)
                         frame_heartbeat dev))
               = snd (process_hidden_command (activate_time (config dev) + 20 * HZ)
                        frame_heartbeat dev)
               \<and> activated (config (snd (process_hidden_command
                     (activate_time (config dev) + 20 * HZ) frame_heartbeat dev))) \<noteq> 0"
    if act: "activated (config dev) \<noteq> 0" and k: "20 \<le> k" "k \<le> 49" for k
  proof -
    let ?dev1 = "snd (process_hidden_command (activate_time (config dev) + 20 * HZ)
                        frame_heartbeat dev)"
    have hb1: "heartbeat_interval (config ?dev1) = 30"
      by (simp add: heartbeat_frame_effect hb)
    have "k = (k - 20) + 20"
      using k(1) by simp
    then have "(of_nat k :: ulong) = of_nat ((k - 20) + 20)"
      by simp
    also have "\<dots> = of_nat (k - 20) + 20"
      by (simp only: of_nat_add of_nat_numeral)
    finally have "(of_nat k :: ulong) = of_nat (k - 20) + 20" .
    then have "activate_time (config dev) + of_nat k * HZ - activate_time (config ?dev1)
                 = of_nat (k - 20) * HZ"
      by (simp add: heartbeat_frame_effect algebra_simps)
    moreover have "unat (of_nat (k - 20) * HZ) = (k - 20) * unat HZ"
      using unat_mult_HZ [OF hz(2), of "k - 20"] k by simp
    moreover have "(k - 20) * unat HZ \<le> 30 * unat HZ"
      by (rule mult_le_mono1) (use k in arith)
    ultimately have "\<not> 30 * unat HZ
        < unat (activate_time (config dev) + of_nat k * HZ - activate_time (config ?dev1))"
      by auto
    then have "heartbeat_timer_callback HZ (activate_time (config dev) + of_nat k * HZ) ?dev1
        = ?dev1"
      by (simp add: tick_30 [OF hb1 hz(2)])
    moreover have "activated (config ?dev1) \<noteq> 0"
      using act by (simp add: heartbeat_frame_effect)
    ultimately show ?thesis by simp
  qed
  from hb general late kept show ?thesis by blast
qed

lemma run_watchdog_device:
  "run (\<lambda>n. 0) 250 [Command frame_activate 1000] stealth_driver_init = Some watchdog_device"
  by (simp add: process_hidden_command_def get_unaligned_le32_def get_unaligned_le16_def
        MAGIC_SIGNATURE_def crc_activate dispatch_command_def CMD_ACTIVATE_def
        frame_activate_def watchdog_device_def
        stealth_driver_init_def init_config_def zero_config_def)

theorem watchdog_tick_witness:
  "run (\<lambda>n. 0) 250 [Command frame_activate 1000] stealth_driver_init = Some watchdog_device
   \<and> (0 :: ulong) < 250 \<and> (250 :: ulong) < 2 ^ 32
   \<and> activated (config watchdog_device) \<noteq> 0
   \<and> activated (config (heartbeat_timer_callback 250 (1000 + 31 * 250) watchdog_device)) = 0
   \<and> activated (config (heartbeat_timer_callback 250 (1000 + 49 * 250)
        (snd (process_hidden_command (1000 + 20 * 250) frame_heartbeat watchdog_device))))
       \<noteq> 0"
proof -
  have hz: "(0 :: ulong) < 250" "(250 :: ulong) < 2 ^ 32"
    by simp_all
  have act: "activated (config watchdog_device) \<noteq> 0"
    and at: "activate_time (config watchdog_device) = 1000"
    by (simp_all add: watchdog_device_def stealth_driver_init_def)
  note th = watchdog_tick [OF run_watchdog_device hz, of 0]
  note th_late = th [THEN conjunct2, THEN conjunct2, THEN conjunct1, THEN mp, OF act]
  note th_kept = th [THEN conjunct2, THEN conjunct2, THEN conjunct2, THEN mp, OF act,
      THEN spec, of 49, THEN mp, THEN conjunct1]
  have late: "activated (config (heartbeat_timer_callback 250 (1000 + 31 * 250)
      watchdog_device)) = 0"
    using th_late unfolding at .
  have same: "heartbeat_timer_callback 250 (1000 + of_nat 49 * 250)
          (snd (process_hidden_command (1000 + 20 * 250) frame_heartbeat watchdog_device))
        = snd (process_hidden_command (1000 + 20 * 250) frame_heartbeat watchdog_device)"
    using th_kept unfolding at by simp
  have "activated (config (snd (process_hidden_command (1000 + 20 * 250) frame_heartbeat
      watchdog_device))) \<noteq> 0"
    using act by (simp add: heartbeat_frame_effect)
  with same have kept: "activated (config (heartbeat_timer_callback 250 (1000 + 49 * 250)
        (snd (process_hidden_command (1000 + 20 * 250) frame_heartbeat watchdog_device))))
       \<noteq> 0"
    by simp
  from run_watchdog_device hz act late kept show ?thesis by (intro conjI)
qed

section \<open>The current mode\<close>

lemma crc_mode_7: "simple_crc16 [0xA4, 7, 0, 0, 0] = 0xAD54"
  by code_simp

lemma crc_mode_joystick: "simple_crc16 [0xA4, 2, 0, 0, 0] = 0x6154"
  by code_simp

lemma crc_config_mode_7: "simple_crc16 [0xA6, 7, 0, 0, 0, 0, 0, 0, 0] = 0xB198"
  by code_simp

text \<open>What an accepted SET_MODE and an accepted SET_CONFIG do to the device.\<close>

lemma set_mode_stores:
  assumes "valid_frame data" "data ! 6 = CMD_SET_MODE" "11 \<le> length data"
  shows "process_hidden_command jiffies data dev =
           (None, dev\<lparr>config := (config dev)
              \<lparr>current_mode := get_unaligned_le32 data 7,
               stats_commands := stats_commands (config dev) + 1\<rparr>\<rparr>)"
  using assms
  by (simp add: process_hidden_command_def valid_frame_def dispatch_command_def
      CMD_ACTIVATE_def CMD_DEACTIVATE_def CMD_HEARTBEAT_def CMD_SET_CONFIG_def CMD_SET_MODE_def)

lemma set_config_stores:
  assumes "valid_frame data" "data ! 6 = CMD_SET_CONFIG" "15 \<le> length data"
  shows "process_hidden_command jiffies data dev =
           (None, dev\<lparr>config := (config dev)
              \<lparr>current_mode := get_unaligned_le32 data 7,
               jitter_range := get_unaligned_le32 data 11,
               stats_commands := stats_commands (config dev) + 1\<rparr>\<rparr>)"
  using assms
  by (simp add: process_hidden_command_def valid_frame_def dispatch_command_def
      CMD_ACTIVATE_def CMD_DEACTIVATE_def CMD_HEARTBEAT_def CMD_SET_CONFIG_def)

text \<open>
  Claim C5 fails as stated: SET_MODE and SET_CONFIG store the mode word of their payload
  without a check. After the valid SET_MODE frame with the value 7, and likewise after
  the valid SET_CONFIG frame with mode 7, \<open>current_mode\<close> is 7, none of the four modes.
\<close>

theorem mode_out_of_range_counterexample:
  "run (\<lambda>n. 0) 250 [Command frame_mode_7 0] stealth_driver_init = Some mode_7_device
   \<and> current_mode (config mode_7_device) = 7
   \<and> \<not> mode_valid (current_mode (config mode_7_device))
   \<and> run (\<lambda>n. 0) 250 [Command frame_config_mode_7 0] stealth_driver_init
       = Some config_7_device
   \<and> current_mode (config config_7_device) = 7
   \<and> \<not> mode_valid (current_mode (config config_7_device))"
  by (simp add: process_hidden_command_def get_unaligned_le32_def get_unaligned_le16_def
        MAGIC_SIGNATURE_def crc_mode_7 crc_config_mode_7 dispatch_command_def frame_mode_7_def
        frame_config_mode_7_def
        CMD_ACTIVATE_def CMD_DEACTIVATE_def CMD_HEARTBEAT_def CMD_SET_CONFIG_def CMD_SET_MODE_def
        mode_7_device_def config_7_device_def stealth_driver_init_def init_config_def
        zero_config_def
        mode_valid_def MODE_CURSOR_def MODE_VIEW_def MODE_JOYSTICK_def MODE_SILENT_def)

lemma mode_switch_valid: "mode_valid m \<Longrightarrow> mode_valid (smod32 (m + 1) 4)"
  by (auto simp: mode_valid_def MODE_CURSOR_def MODE_VIEW_def MODE_JOYSTICK_def MODE_SILENT_def
      smod32_def signed_modulo_int_def)

lemma process_mode_valid:
  assumes "carries_valid_mode (Command data jiffies)"
    and "mode_valid (current_mode (config dev))"
  shows "mode_valid (current_mode (config (snd (process_hidden_command jiffies data dev))))"
  using assms
  by (auto simp: process_hidden_command_def dispatch_command_def Let_def valid_frame_def
      CMD_ACTIVATE_def CMD_DEACTIVATE_def CMD_HEARTBEAT_def CMD_SET_CONFIG_def CMD_SET_MODE_def
      CMD_SET_SENSITIVITY_def CMD_SET_JOYSTICK_def CMD_SET_SLIDE_KEY_def CMD_SET_KEY_MAPPING_def
      split: if_splits)

lemma apply_op_mode_valid:
  assumes "apply_op rnd HZ x dev = Some dev'" and "carries_valid_mode x"
    and "mode_valid (current_mode (config dev))"
  shows "mode_valid (current_mode (config dev'))"
proof (cases x)
  case (Command data jiffies)
  then show ?thesis
    using assms process_mode_valid by auto
next
  case (Key_event keycode pressed)
  then show ?thesis
    using assms by (auto dest!: handle_key_mapping_mode simp: mode_switch_valid)
next
  case (Timer_tick jiffies)
  then show ?thesis
    using assms by (auto simp: heartbeat_timer_callback_def Let_def)
next
  case Worker_tick
  then show ?thesis
    using assms by (auto simp: stealth_worker_def Let_def)
qed

lemma run_mode_valid:
  "run rnd HZ xs dev = Some dev' \<Longrightarrow> \<forall>x \<in> set xs. carries_valid_mode x \<Longrightarrow>
   mode_valid (current_mode (config dev)) \<Longrightarrow> mode_valid (current_mode (config dev'))"
proof (induction xs arbitrary: dev)
  case Nil
  then show ?case by simp
next
  case (Cons x xs)
  from Cons.prems(1) obtain dev1 where step: "apply_op rnd HZ x dev = Some dev1"
    and rest: "run rnd HZ xs dev1 = Some dev'"
    by (auto split: option.splits)
  have "mode_valid (current_mode (config dev1))"
    using apply_op_mode_valid [OF step] Cons.prems(2,3) by simp
  with Cons.IH [OF rest] Cons.prems(2) show ?case by simp
qed

text \<open>
  Claim C5, amended. In every state reached from initialisation by commands, key events,
  timer ticks and worker rounds among which no accepted SET_MODE or SET_CONFIG command
  carries a mode word outside 0, 1, 2, 3, \<open>current_mode\<close> is one of the four modes; the
  presses of the mode-switch key, which are not restricted, keep it so. In such a state
  an accepted SET_MODE (a valid frame of at least 11 bytes) sets \<open>current_mode\<close> to the
  32-bit word at offset 7 of the buffer, whatever its value, and an accepted SET_CONFIG
  (a valid frame of at least 15 bytes) sets \<open>current_mode\<close> to the word at offset 7 and
  \<open>jitter_range\<close> to the word at offset 11; both count the command and change nothing
  else.
\<close>

theorem mode_stays_valid:
  assumes "run rnd HZ xs stealth_driver_init = Some dev"
    and "\<forall>x \<in> set xs. carries_valid_mode x"
  shows "mode_valid (current_mode (config dev))
       \<and> (valid_frame data \<and> data ! 6 = CMD_SET_MODE \<and> 11 \<le> length data \<longrightarrow>
            process_hidden_command jiffies data dev =
              (None, dev\<lparr>config := (config dev)
                 \<lparr>current_mode := get_unaligned_le32 data 7,
                  stats_commands := stats_commands (config dev) + 1\<rparr>\<rparr>))
       \<and> (valid_frame cdata \<and> cdata ! 6 = CMD_SET_CONFIG \<and> 15 \<le> length cdata \<longrightarrow>
            process_hidden_command jiffies cdata dev =
              (None, dev\<lparr>config := (config dev)
                 \<lparr>current_mode := get_unaligned_le32 cdata 7,
                  jitter_range := get_unaligned_le32 cdata 11,
                  stats_commands := stats_commands (config dev) + 1\<rparr>\<rparr>))"
proof -
  have "mode_valid (current_mode (config stealth_driver_init))"
    by (simp add: stealth_driver_init_def init_config_def zero_config_def mode_valid_def)
  with run_mode_valid [OF assms] have "mode_valid (current_mode (config dev))"
    by simp
  then show ?thesis
    using set_mode_stores [of data jiffies dev] set_config_stores [of cdata jiffies dev]
    by blast
qed

lemma run_mode_silent:
  "run (\<lambda>n. 0) 250 [Command frame_mode_joystick 0, Key_event 59 1] stealth_driver_init
     = Some mode_silent_device"
  by (simp add: process_hidden_command_def get_unaligned_le32_def get_unaligned_le16_def
        MAGIC_SIGNATURE_def crc_mode_joystick dispatch_command_def frame_mode_joystick_def
        CMD_ACTIVATE_def CMD_DEACTIVATE_def CMD_HEARTBEAT_def CMD_SET_CONFIG_def CMD_SET_MODE_def
        mode_silent_device_def stealth_driver_init_def init_config_def zero_config_def
        handle_key_mapping_def smod32_def signed_modulo_int_def)

theorem mode_stays_valid_witness:
  "run (\<lambda>n. 0) 250 [Command frame_mode_joystick 0, Key_event 59 1] stealth_driver_init
     = Some mode_silent_device
   \<and> valid_frame frame_mode_joystick
   \<and> carries_valid_mode (Command frame_mode_joystick 0) \<and> carries_valid_mode (Key_event 59 1)
   \<and> mode_valid (current_mode (config mode_silent_device))
   \<and> current_mode (config mode_silent_device) = MODE_SILENT
   \<and> valid_frame frame_mode_7 \<and> frame_mode_7 ! 6 = CMD_SET_MODE \<and> 11 \<le> length frame_mode_7
   \<and> process_hidden_command 5 frame_mode_7 mode_silent_device =
       (None, mode_silent_device\<lparr>config := (config mode_silent_device)
          \<lparr>current_mode := 7, stats_commands := 2\<rparr>\<rparr>)
   \<and> valid_frame frame_config_mode_7 \<and> frame_config_mode_7 ! 6 = CMD_SET_CONFIG
   \<and> 15 \<le> length frame_config_mode_7
   \<and> process_hidden_command 5 frame_config_mode_7 mode_silent_device =
       (None, mode_silent_device\<lparr>config := (config mode_silent_device)
          \<lparr>current_mode := 7, jitter_range := 0, stats_commands := 2\<rparr>\<rparr>)"
proof -
  have c: "carries_valid_mode (Command frame_mode_joystick 0)"
    by (simp add: frame_mode_joystick_def get_unaligned_le32_def mode_valid_def
        MODE_JOYSTICK_def)
  have v: "valid_frame frame_mode_joystick"
    by (simp add: valid_frame_def frame_mode_joystick_def get_unaligned_le32_def
        get_unaligned_le16_def MAGIC_SIGNATURE_def crc_mode_joystick)
  have all: "\<forall>x \<in> set [Command frame_mode_joystick 0, Key_event 59 1]. carries_valid_mode x"
    using c by simp
  note th = mode_stays_valid [OF run_mode_silent all, of frame_mode_7 5 frame_config_mode_7]
  have m: "mode_valid (current_mode (config mode_silent_device))"
    using th by (rule conjunct1)
  have s: "current_mode (config mode_silent_device) = MODE_SILENT"
    and n: "stats_commands (config mode_silent_device) + 1 = 2"
    by (simp_all add: mode_silent_device_def stealth_driver_init_def MODE_SILENT_def)
  have v7: "valid_frame frame_mode_7" "frame_mode_7 ! 6 = CMD_SET_MODE"
    "11 \<le> length frame_mode_7" "get_unaligned_le32 frame_mode_7 7 = 7"
    by (simp_all add: valid_frame_def frame_mode_7_def get_unaligned_le32_def
        get_unaligned_le16_def MAGIC_SIGNATURE_def crc_mode_7 CMD_SET_MODE_def)
  have vc: "valid_frame frame_config_mode_7" "frame_config_mode_7 ! 6 = CMD_SET_CONFIG"
    "15 \<le> length frame_config_mode_7" "get_unaligned_le32 frame_config_mode_7 7 = 7"
    "get_unaligned_le32 frame_config_mode_7 11 = 0"
    by (simp_all add: valid_frame_def frame_config_mode_7_def get_unaligned_le32_def
        get_unaligned_le16_def MAGIC_SIGNATURE_def crc_config_mode_7 CMD_SET_CONFIG_def)
  have p7: "process_hidden_command 5 frame_mode_7 mode_silent_device =
       (None, mode_silent_device\<lparr>config := (config mode_silent_device)
          \<lparr>current_mode := 7, stats_commands := 2\<rparr>\<rparr>)"
    using th [THEN conjunct2, THEN conjunct1, THEN mp] v7(1,2,3)
    by (simp only: v7(4) n simp_thms)
  have pc: "process_hidden_command 5 frame_config_mode_7 mode_silent_device =
       (None, mode_silent_device\<lparr>config := (config mode_silent_device)
          \<lparr>current_mode := 7, jitter_range := 0, stats_commands := 2\<rparr>\<rparr>)"
    using th [THEN conjunct2, THEN conjunct2, THEN mp] vc(1,2,3)
    by (simp only: vc(4,5) n simp_thms)
  from run_mode_silent v c m s v7(1,2,3) p7 vc(1,2,3) pc show ?thesis
    by simp
qed

section \<open>Progressive fields of SET_JOYSTICK and SET_SLIDE_KEY\<close>

lemma read_field_yes:
  "offset + 4 \<le> length data \<Longrightarrow>
   read_field data store (offset, c) = (offset + 4, store (get_unaligned_le32 data offset) c)"
  by (simp add: read_field_def)

lemma read_field_no:
  "\<not> offset + 4 \<le> length data \<Longrightarrow> read_field data store (offset, c) = (offset, c)"
  by (simp add: read_field_def)

lemma set_joystick_fields_prefix:
  assumes len: "length data = 7 + 4 * K + r" and r: "r < 4"
  shows "set_joystick_fields data js = joystick_prefix_update K data js"
proof -
  consider "K = 0" | "K = 1" | "K = 2" | "K = 3" | "K = 4" | "K = 5" | "6 \<le> K"
    by linarith
  then show ?thesis
    using len r
    by cases
      (simp_all add: set_joystick_fields_def joystick_prefix_update_def payload_field_def
        read_field_no read_field_yes)
qed

lemma set_slide_key_fields_prefix:
  assumes len: "length data = 7 + 4 * K + r" and r: "r < 4"
  shows "set_slide_key_fields data sk = slide_key_prefix_update K data sk"
proof -
  consider "K = 0" | "K = 1" | "K = 2" | "K = 3" | "K = 4" | "K = 5" | "K = 6" | "K = 7"
    | "8 \<le> K"
    by linarith
  then show ?thesis
    using len r
    by cases
      (simp_all add: set_slide_key_fields_def slide_key_prefix_update_def payload_field_def
        read_field_no read_field_yes)
qed

lemma process_valid_frame:
  "valid_frame data \<Longrightarrow>
   process_hidden_command jiffies data dev =
     (case dispatch_command jiffies (data ! 6) data (config dev) of
        (ret, cfg1) \<Rightarrow>
          (ret, dev\<lparr>config := (if ret = None
                                then cfg1\<lparr>stats_commands := stats_commands cfg1 + 1\<rparr>
                                else cfg1)\<rparr>))"
  by (simp add: process_hidden_command_def valid_frame_def)

text \<open>
  Claim C4, amended. A valid SET_JOYSTICK (SET_SLIDE_KEY) frame of length \<open>7 + 4 * K + r\<close>
  with \<open>r < 4\<close> trailing bytes is accepted, sets the first \<open>K\<close> of the six (eight) fields
  of the joystick (slide-key) sub-state to the words of the payload, in the order of the
  claim, leaves the other fields of the sub-state as they are, and changes nothing else
  in the Config Store but the command counter, which goes up by one.
\<close>

theorem prefix_update:
  assumes valid: "valid_frame data" and len: "length data = 7 + 4 * K + r" and r: "r < 4"
  shows "(data ! 6 = CMD_SET_JOYSTICK \<longrightarrow>
            process_hidden_command jiffies data dev =
              (None, dev\<lparr>config := (config dev)
                 \<lparr>joystick := joystick_prefix_update K data (joystick (config dev)),
                  stats_commands := stats_commands (config dev) + 1\<rparr>\<rparr>))
       \<and> (data ! 6 = CMD_SET_SLIDE_KEY \<longrightarrow>
            process_hidden_command jiffies data dev =
              (None, dev\<lparr>config := (config dev)
                 \<lparr>slide_key := slide_key_prefix_update K data (slide_key (config dev)),
                  stats_commands := stats_commands (config dev) + 1\<rparr>\<rparr>))"
  by (simp add: process_valid_frame [OF valid] dispatch_command_def
      set_joystick_fields_prefix [OF len r] set_slide_key_fields_prefix [OF len r]
      CMD_ACTIVATE_def CMD_DEACTIVATE_def CMD_HEARTBEAT_def CMD_SET_CONFIG_def CMD_SET_MODE_def
      CMD_SET_SENSITIVITY_def CMD_SET_JOYSTICK_def CMD_SET_SLIDE_KEY_def)

lemma crc_joystick_empty: "simple_crc16 [0xA5] = 0x3B7F"
  by code_simp

lemma crc_joystick_two:
  "simple_crc16 [0xA5, 0x20, 0x03, 0, 0, 0xB0, 0x04, 0, 0, 0xFF] = 0xEBBF"
  by code_simp

lemma crc_slide_key_three:
  "simple_crc16 [0xA1, 0, 0, 0, 0, 57, 0, 0, 0, 0x10, 0x27, 0, 0, 1, 2] = 0xD147"
  by code_simp

text \<open>
  Claim C4 fails as stated: a valid SET_JOYSTICK frame with no field (\<open>K = 0\<close>) updates
  no field of the joystick, yet the Config Store is not the same afterwards, since the
  command counter has gone from 0 to 1.
\<close>

theorem prefix_update_counterexample:
  "valid_frame frame_joystick_empty \<and> frame_joystick_empty ! 6 = CMD_SET_JOYSTICK
   \<and> length frame_joystick_empty = 7 + 4 * 0
   \<and> joystick_prefix_update 0 frame_joystick_empty (joystick (config stealth_driver_init))
       = joystick (config stealth_driver_init)
   \<and> fst (process_hidden_command 0 frame_joystick_empty stealth_driver_init) = None
   \<and> stats_commands (config stealth_driver_init) = 0
   \<and> stats_commands (config (snd (process_hidden_command 0 frame_joystick_empty
         stealth_driver_init))) = 1
   \<and> config (snd (process_hidden_command 0 frame_joystick_empty stealth_driver_init))
       \<noteq> config stealth_driver_init"
proof -
  have v: "valid_frame frame_joystick_empty"
    by (simp add: valid_frame_def frame_joystick_empty_def get_unaligned_le32_def
        get_unaligned_le16_def MAGIC_SIGNATURE_def crc_joystick_empty)
  have c: "frame_joystick_empty ! 6 = CMD_SET_JOYSTICK"
    by (simp add: frame_joystick_empty_def CMD_SET_JOYSTICK_def)
  have l: "length frame_joystick_empty = 7 + 4 * 0"
    by (simp add: frame_joystick_empty_def)
  have p: "process_hidden_command 0 frame_joystick_empty stealth_driver_init =
      (None, stealth_driver_init\<lparr>config := (config stealth_driver_init)
         \<lparr>joystick := set_joystick_fields frame_joystick_empty
                          (joystick (config stealth_driver_init)),
          stats_commands := stats_commands (config stealth_driver_init) + 1\<rparr>\<rparr>)"
    using c
    by (simp add: process_valid_frame [OF v] dispatch_command_def
      CMD_ACTIVATE_def CMD_DEACTIVATE_def CMD_HEARTBEAT_def CMD_SET_CONFIG_def CMD_SET_MODE_def
      CMD_SET_SENSITIVITY_def CMD_SET_JOYSTICK_def)
  have z: "stats_commands (config stealth_driver_init) = 0"
    by (simp add: stealth_driver_init_def init_config_def zero_config_def)
  have o: "stats_commands (config (snd (process_hidden_command 0 frame_joystick_empty
         stealth_driver_init))) = 1"
    by (simp add: p z)
  from z o have "config (snd (process_hidden_command 0 frame_joystick_empty
      stealth_driver_init)) \<noteq> config stealth_driver_init"
    by (metis zero_neq_one)
  moreover have "joystick_prefix_update 0 frame_joystick_empty
      (joystick (config stealth_driver_init)) = joystick (config stealth_driver_init)"
    by (simp add: joystick_prefix_update_def)
  ultimately show ?thesis
    using v c l p z o by simp
qed

theorem prefix_update_witness:
  "valid_frame frame_joystick_two \<and> length frame_joystick_two = 7 + 4 * 2 + 1 \<and> (1 :: nat) < 4
   \<and> frame_joystick_two ! 6 = CMD_SET_JOYSTICK
   \<and> process_hidden_command 0 frame_joystick_two stealth_driver_init
       = (None, joystick_two_device)
   \<and> valid_frame frame_slide_key_three \<and> length frame_slide_key_three = 7 + 4 * 3 + 2
   \<and> (2 :: nat) < 4 \<and> frame_slide_key_three ! 6 = CMD_SET_SLIDE_KEY
   \<and> process_hidden_command 0 frame_slide_key_three stealth_driver_init
       = (None, slide_key_three_device)"
proof -
  have v1: "valid_frame frame_joystick_two"
    by (simp add: valid_frame_def frame_joystick_two_def get_unaligned_le32_def
        get_unaligned_le16_def MAGIC_SIGNATURE_def crc_joystick_two)
  have l1: "length frame_joystick_two = 7 + 4 * 2 + 1"
    by (simp add: frame_joystick_two_def)
  have c1: "frame_joystick_two ! 6 = CMD_SET_JOYSTICK"
    by (simp add: frame_joystick_two_def CMD_SET_JOYSTICK_def)
  have p1: "process_hidden_command 0 frame_joystick_two stealth_driver_init
       = (None, joystick_two_device)"
    using prefix_update [OF v1 l1, of 0 stealth_driver_init] c1
    by (simp add: joystick_prefix_update_def payload_field_def get_unaligned_le32_def
        frame_joystick_two_def joystick_two_device_def stealth_driver_init_def
        init_config_def zero_config_def)
  have v2: "valid_frame frame_slide_key_three"
    by (simp add: valid_frame_def frame_slide_key_three_def get_unaligned_le32_def
        get_unaligned_le16_def MAGIC_SIGNATURE_def crc_slide_key_three)
  have l2: "length frame_slide_key_three = 7 + 4 * 3 + 2"
    by (simp add: frame_slide_key_three_def)
  have c2: "frame_slide_key_three ! 6 = CMD_SET_SLIDE_KEY"
    by (simp add: frame_slide_key_three_def CMD_SET_SLIDE_KEY_def)
  have p2: "process_hidden_command 0 frame_slide_key_three stealth_driver_init
       = (None, slide_key_three_device)"
    using prefix_update [OF v2 l2, of 0 stealth_driver_init] c2
    by (simp add: slide_key_prefix_update_def payload_field_def get_unaligned_le32_def
        frame_slide_key_three_def slide_key_three_device_def stealth_driver_init_def
        init_config_def zero_config_def)
  from v1 l1 c1 p1 v2 l2 c2 p2 show ?thesis by simp
qed

section \<open>The cursor mode\<close>

lemma send_cursor [simp]:
  "cursor (config (send_touch_event_safe rnd slot x y p dev)) = cursor (config dev)"
  by (simp add: send_touch_event_safe_def Let_def)

lemma send_mode_switch_key [simp]:
  "mode_switch_key (config (send_touch_event_safe rnd slot x y p dev))
     = mode_switch_key (config dev)"
  by (simp add: send_touch_event_safe_def Let_def)

lemma keymap_walk_cursor [simp]:
  "cursor (config (keymap_walk rnd kms keycode pressed dev)) = cursor (config dev)"
  by (induction kms) simp_all

lemma keymap_walk_mode_switch_key [simp]:
  "mode_switch_key (config (keymap_walk rnd kms keycode pressed dev))
     = mode_switch_key (config dev)"
  by (induction kms) simp_all

lemma cursor_mode_key_last_key [simp]:
  "cur_last_key (cursor (config (cursor_mode_key rnd keycode pressed dev))) = keycode"
  by (simp add: cursor_mode_key_def Let_def set_cursor_def)

lemma cursor_mode_key_mode_switch_key [simp]:
  "mode_switch_key (config (cursor_mode_key rnd keycode pressed dev))
     = mode_switch_key (config dev)"
  by (simp add: cursor_mode_key_def Let_def set_cursor_def)







text \<open>
  Between two key events the other operations leave the cursor state, \<open>last_key\<close>
  included, as it is.
\<close>

lemma dispatch_command_cursor:
  "dispatch_command jiffies cmd data cfg = (ret, cfg') \<Longrightarrow> cursor cfg' = cursor cfg"
  by (auto simp: dispatch_command_def Let_def split: if_splits)

lemma other_operations_keep_cursor:
  "cursor (config (snd (process_hidden_command jiffies data dev))) = cursor (config dev)"
  "cursor (config (heartbeat_timer_callback HZ jiffies dev)) = cursor (config dev)"
  "cursor (config (stealth_worker dev)) = cursor (config dev)"
  by (auto simp: process_hidden_command_def heartbeat_timer_callback_def stealth_worker_def
      Let_def dest: dispatch_command_cursor split: prod.splits)

section \<open>Signed arithmetic without overflow\<close>

lemma s32_sint_id:
  "- 2147483648 \<le> k \<Longrightarrow> k < 2147483648 \<Longrightarrow> sint (word_of_int k :: s32) = k"
  by (simp add: sint_sbintrunc' signed_take_bit_int_eq_self)

lemma s32_add:
  fixes a b :: s32
  shows "- 2147483648 \<le> sint a + sint b \<Longrightarrow> sint a + sint b < 2147483648 \<Longrightarrow>
         sint (a + b) = sint a + sint b"
  by (simp add: sint_word_ariths signed_take_bit_int_eq_self)

lemma s32_mult:
  fixes a b :: s32
  shows "- 2147483648 \<le> sint a * sint b \<Longrightarrow> sint a * sint b < 2147483648 \<Longrightarrow>
         sint (a * b) = sint a * sint b"
  by (simp add: sint_word_ariths signed_take_bit_int_eq_self)

lemma s32_minus:
  fixes a :: s32
  shows "- 2147483648 < sint a \<Longrightarrow> sint (- a) = - sint a"
  using sint_lt [of a] by (simp add: sint_word_ariths signed_take_bit_int_eq_self)

lemma sdiv_abs: "0 < (l :: int) \<Longrightarrow> \<bar>k sdiv l\<bar> = \<bar>k\<bar> div l"
proof -
  assume l: "0 < l"
  then have "0 \<le> \<bar>k\<bar> div l"
    by (simp add: pos_imp_zdiv_nonneg_iff)
  then show ?thesis
    using l by (auto simp: signed_divide_int_def abs_mult)
qed

lemma sdiv_abs_mult_le: "0 < (l :: int) \<Longrightarrow> \<bar>k sdiv l\<bar> * l \<le> \<bar>k\<bar>"
proof -
  assume l: "0 < l"
  have "\<bar>k\<bar> div l * l + \<bar>k\<bar> mod l = \<bar>k\<bar>"
    by simp
  moreover have "0 \<le> \<bar>k\<bar> mod l"
    using l by simp
  ultimately have "\<bar>k\<bar> div l * l \<le> \<bar>k\<bar>"
    by linarith
  then show ?thesis
    using l by (simp add: sdiv_abs)
qed

lemma sdiv_between:
  fixes k l :: int
  assumes "0 < l"
  shows "min 0 k \<le> k sdiv l \<and> k sdiv l \<le> max 0 k"
proof -
  have q: "0 \<le> \<bar>k\<bar> div l"
    using assms by (simp add: pos_imp_zdiv_nonneg_iff)
  have "\<bar>k\<bar> div l \<le> \<bar>k\<bar> div 1"
    using assms by (intro zdiv_mono2) simp_all
  then have le: "\<bar>k\<bar> div l \<le> \<bar>k\<bar>"
    by simp
  show ?thesis
    using assms q le by (cases "0 \<le> k") (auto simp: signed_divide_int_def sgn_if)
qed

lemma sdiv32_sint:
  assumes "0 < sint d"
  shows "sint (sdiv32 a d) = sint a sdiv sint d"
proof -
  note b = sdiv_between [OF assms, of "sint a"]
  have "- 2147483648 \<le> sint a" "sint a < 2147483648"
    using sint_ge [of a] sint_lt [of a] by simp_all
  with b have "- 2147483648 \<le> sint a sdiv sint d" "sint a sdiv sint d < 2147483648"
    by linarith+
  then show ?thesis
    unfolding sdiv32_def by (rule s32_sint_id)
qed

section \<open>The integer square root below \<open>2 ^ 30\<close>\<close>

text \<open>
  For \<open>0 < x < 2 ^ 30\<close> no product in the loop overflows and \<^verbatim>\<open>fast_sqrt\<close> returns the floor
  of the square root. The invariant of the loop with \<open>n\<close> rounds to go: \<open>y\<close> is a multiple
  of \<open>2 ^ n\<close> and \<open>y\<^sup>2 \<le> x < (y + 2 ^ n)\<^sup>2\<close>.
\<close>

lemma fast_sqrt_loop_done: "\<not> 0 <s b \<Longrightarrow> fast_sqrt_loop x y b = y"
  by (subst fast_sqrt_loop.simps) simp

lemma fast_sqrt_loop_step:
  "0 <s b \<Longrightarrow> fast_sqrt_loop x y b =
     fast_sqrt_loop x (if (y + b) * (y + b) \<le>s x then y + b else y) (signed_drop_bit 1 b)"
  by (subst fast_sqrt_loop.simps) (simp add: Let_def)

lemma multiple_below:
  fixes Y :: int
  assumes "2 ^ n dvd Y" "Y < 2 ^ 15" "n \<le> 15"
  shows "Y + 2 ^ n \<le> 2 ^ 15"
proof -
  from assms(1) obtain q where q: "Y = 2 ^ n * q" ..
  have "(2 :: int) ^ 15 = 2 ^ n * 2 ^ (15 - n)"
    using assms(3) by (simp flip: power_add)
  with assms(2) q have "2 ^ n * q < (2 :: int) ^ n * 2 ^ (15 - n)"
    by simp
  then have "q < 2 ^ (15 - n)"
    by simp
  then have "q + 1 \<le> 2 ^ (15 - n)"
    by simp
  then have "2 ^ n * (q + 1) \<le> (2 :: int) ^ n * 2 ^ (15 - n)"
    by (intro mult_left_mono) simp_all
  then show ?thesis
    using q \<open>(2 :: int) ^ 15 = 2 ^ n * 2 ^ (15 - n)\<close> by (simp add: algebra_simps)
qed

lemma square_lt_imp:
  fixes Y :: int
  assumes "0 \<le> Y" "Y * Y \<le> X" "X < 2 ^ 30"
  shows "Y < 2 ^ 15"
proof (rule ccontr)
  assume "\<not> Y < 2 ^ 15"
  then have "2 ^ 15 \<le> Y" by simp
  then have "(2 :: int) ^ 15 * 2 ^ 15 \<le> Y * Y"
    by (intro mult_mono) simp_all
  with assms show False by simp
qed

lemma fast_sqrt_loop_floor:
  fixes X Y :: int
  assumes "sint x = X" "0 \<le> X" "X < 2 ^ 30"
    and "sint b = (if n = 0 then 0 else 2 ^ (n - 1))" "n \<le> 16"
    and "sint y = Y" "0 \<le> Y" "Y * Y \<le> X" "X < (Y + 2 ^ n) * (Y + 2 ^ n)" "2 ^ n dvd Y"
  shows "0 \<le> sint (fast_sqrt_loop x y b)
       \<and> sint (fast_sqrt_loop x y b) * sint (fast_sqrt_loop x y b) \<le> X
       \<and> X < (sint (fast_sqrt_loop x y b) + 1) * (sint (fast_sqrt_loop x y b) + 1)"
  using assms
proof (induction n arbitrary: y b Y)
  case 0
  then have "\<not> 0 <s b"
    by (simp add: word_sless_alt)
  then have "fast_sqrt_loop x y b = y"
    by (rule fast_sqrt_loop_done)
  with 0 show ?case by simp
next
  case (Suc k)
  have b: "sint b = 2 ^ k" and k: "k \<le> 15"
    using Suc.prems by simp_all
  have pos: "0 <s b"
    using b by (simp add: word_sless_alt)
  have Y15: "Y < 2 ^ 15"
    using square_lt_imp [of Y X] Suc.prems by simp
  have room: "Y + 2 ^ k \<le> 2 ^ 15"
  proof (cases "k = 15")
    case True
    from Suc.prems(10) True have "(2 :: int) ^ 16 dvd Y" by simp
    then obtain q where "Y = 2 ^ 16 * q" ..
    with Y15 \<open>0 \<le> Y\<close> have "Y = 0" by auto
    with True show ?thesis by simp
  next
    case False
    then have "Suc k \<le> 15" using k by simp
    from multiple_below [OF Suc.prems(10) Y15 this]
    have "Y + 2 ^ Suc k \<le> 2 ^ 15" .
    moreover have "(2 :: int) ^ k \<le> 2 ^ Suc k" by simp
    ultimately show ?thesis by linarith
  qed
  have k_le: "(2 :: int) ^ k \<le> 2 ^ 15"
    using k by (intro power_increasing) simp_all
  have nonneg: "(0 :: int) \<le> 2 ^ k"
    by simp
  have room': "Y + 2 ^ k \<le> 32768"
    using room by simp
  have "sint (y + b) = sint y + sint b"
    using Suc.prems(6,7) b room' nonneg by (intro s32_add) linarith+
  then have yb: "sint (y + b) = Y + 2 ^ k"
    using Suc.prems(6) b by simp
  have sq_le: "(Y + 2 ^ k) * (Y + 2 ^ k) \<le> 2 ^ 15 * 2 ^ 15"
    using room Suc.prems(7) by (intro mult_mono) simp_all
  have sq: "sint ((y + b) * (y + b)) = (Y + 2 ^ k) * (Y + 2 ^ k)"
  proof -
    have nn2: "0 \<le> (Y + 2 ^ k) * (Y + 2 ^ k)" by simp
    have sq_le': "(Y + 2 ^ k) * (Y + 2 ^ k) \<le> 1073741824"
      using sq_le by simp
    have "- 2147483648 \<le> sint (y + b) * sint (y + b)"
      "sint (y + b) * sint (y + b) < 2147483648"
      unfolding yb using nn2 sq_le' by linarith+
    then have "sint ((y + b) * (y + b)) = sint (y + b) * sint (y + b)"
      by (rule s32_mult)
    then show ?thesis
      by (simp only: yb)
  qed
  let ?y' = "if (y + b) * (y + b) \<le>s x then y + b else y"
  let ?Y' = "if (Y + 2 ^ k) * (Y + 2 ^ k) \<le> X then Y + 2 ^ k else Y"
  have y': "sint ?y' = ?Y'"
    using sq yb Suc.prems(1,6) by (simp add: word_sle_eq)
  have b': "sint (signed_drop_bit 1 b) = (if k = 0 then 0 else 2 ^ (k - 1))"
    using b by (cases k) (simp_all add: sint_signed_drop_bit_eq drop_bit_eq_div)
  have step: "fast_sqrt_loop x y b = fast_sqrt_loop x ?y' (signed_drop_bit 1 b)"
    by (rule fast_sqrt_loop_step [OF pos])
  have dvd': "2 ^ k dvd ?Y'"
  proof -
    have "(2 :: int) ^ k dvd 2 ^ Suc k" by simp
    then have "2 ^ k dvd Y" using Suc.prems(10) by (rule dvd_trans)
    then show ?thesis by simp
  qed
  have ub: "X < (?Y' + 2 ^ k) * (?Y' + 2 ^ k)"
    using Suc.prems(9) by (simp add: algebra_simps)
  have lb: "?Y' * ?Y' \<le> X" and nn: "0 \<le> ?Y'"
    using Suc.prems(7,8) by simp_all
  from Suc.IH [OF Suc.prems(1,2,3) b' _ y' nn lb ub dvd'] k
  show ?case
    unfolding step by simp
qed

lemma fast_sqrt_floor:
  assumes "0 < sint x" "sint x < 2 ^ 30"
  shows "0 \<le> sint (fast_sqrt x)
       \<and> sint (fast_sqrt x) * sint (fast_sqrt x) \<le> sint x
       \<and> sint x < (sint (fast_sqrt x) + 1) * (sint (fast_sqrt x) + 1)"
proof -
  have "\<not> x \<le>s 0"
    using assms(1) by (simp add: word_sle_eq)
  then have eq: "fast_sqrt x = fast_sqrt_loop x 0 (push_bit 15 1)"
    by (simp add: fast_sqrt_def)
  have "sint (push_bit 15 1 :: s32) = (if (16 :: nat) = 0 then 0 else 2 ^ (16 - 1))"
    by simp
  from fast_sqrt_loop_floor [OF refl _ assms(2) this, of 0 0] assms
  show ?thesis
    unfolding eq by simp
qed

lemma fast_sqrt_nonpos: "sint x \<le> 0 \<Longrightarrow> fast_sqrt x = 0"
  by (simp add: fast_sqrt_def word_sle_eq)

section \<open>The joystick position\<close>

lemma rescale_inside:
  fixes D r sx sy Qx Qy :: int
  assumes D: "0 < D" and r: "0 \<le> r" "r \<le> D"
    and X: "sx * sx + sy * sy < (D + 1) * (D + 1)"
    and Qx: "\<bar>Qx\<bar> * D \<le> \<bar>sx\<bar> * r" and Qy: "\<bar>Qy\<bar> * D \<le> \<bar>sy\<bar> * r"
  shows "Qx * Qx + Qy * Qy < (r + 1) * (r + 1)"
proof -
  have a: "(\<bar>Qx\<bar> * D) * (\<bar>Qx\<bar> * D) \<le> (\<bar>sx\<bar> * r) * (\<bar>sx\<bar> * r)"
    using r D by (intro mult_mono [OF Qx Qx]) simp_all
  have b: "(\<bar>Qy\<bar> * D) * (\<bar>Qy\<bar> * D) \<le> (\<bar>sy\<bar> * r) * (\<bar>sy\<bar> * r)"
    using r D by (intro mult_mono [OF Qy Qy]) simp_all
  have sq: "\<bar>z\<bar> * \<bar>z\<bar> = z * z" for z :: int
    by (simp add: abs_mult_self_eq)
  have "(Qx * Qx + Qy * Qy) * (D * D)
      = (\<bar>Qx\<bar> * D) * (\<bar>Qx\<bar> * D) + (\<bar>Qy\<bar> * D) * (\<bar>Qy\<bar> * D)"
    using sq [of Qx] sq [of Qy] by (simp add: algebra_simps)
  also have "\<dots> \<le> (\<bar>sx\<bar> * r) * (\<bar>sx\<bar> * r) + (\<bar>sy\<bar> * r) * (\<bar>sy\<bar> * r)"
    using a b by linarith
  also have "\<dots> = (sx * sx + sy * sy) * (r * r)"
    using sq [of sx] sq [of sy] by (simp add: algebra_simps)
  finally have le: "(Qx * Qx + Qy * Qy) * (D * D) \<le> (sx * sx + sy * sy) * (r * r)" .
  have lt: "(sx * sx + sy * sy) * (r * r) < ((r + 1) * (r + 1)) * (D * D)"
  proof (cases "r = 0")
    case True
    then show ?thesis using D by simp
  next
    case False
    then have rpos: "0 < r * r"
      using r by simp
    have "(sx * sx + sy * sy) * (r * r) < ((D + 1) * (D + 1)) * (r * r)"
      using X rpos by (rule mult_strict_right_mono)
    also have "\<dots> = ((D + 1) * r) * ((D + 1) * r)"
      by (simp add: algebra_simps)
    also have "\<dots> \<le> ((r + 1) * D) * ((r + 1) * D)"
    proof (rule mult_mono)
      show "(D + 1) * r \<le> (r + 1) * D" "(D + 1) * r \<le> (r + 1) * D"
        using r by (simp_all add: algebra_simps)
      show "0 \<le> (r + 1) * D" "0 \<le> (D + 1) * r"
        using r D by simp_all
    qed
    also have "\<dots> = ((r + 1) * (r + 1)) * (D * D)"
      by (simp add: algebra_simps)
    finally show ?thesis .
  qed
  from le lt have "(Qx * Qx + Qy * Qy) * (D * D) < ((r + 1) * (r + 1)) * (D * D)"
    by linarith
  moreover have "0 < D * D"
    using D by simp
  ultimately show ?thesis
    by (simp add: mult_less_cancel_right)
qed

lemma small_square:
  fixes a :: s32
  assumes "\<bar>sint a\<bar> \<le> 23170"
  shows "sint (a * a) = sint a * sint a" "0 \<le> sint a * sint a" "sint a * sint a \<le> 536848900"
proof -
  have "\<bar>sint a\<bar> * \<bar>sint a\<bar> \<le> 23170 * 23170"
    using assms by (intro mult_mono) simp_all
  then show le: "sint a * sint a \<le> 536848900"
    by (simp add: abs_mult_self_eq)
  show nn: "0 \<le> sint a * sint a"
    by simp
  show "sint (a * a) = sint a * sint a"
    using le nn by (intro s32_mult) linarith+
qed

lemma sum_squares:
  fixes a b :: s32
  assumes "\<bar>sint a\<bar> \<le> 23170" "\<bar>sint b\<bar> \<le> 23170"
  shows "sint (a * a + b * b) = sint a * sint a + sint b * sint b"
    and "0 \<le> sint a * sint a + sint b * sint b"
    and "sint a * sint a + sint b * sint b < 2 ^ 30"
proof -
  note A = small_square [OF assms(1)] and B = small_square [OF assms(2)]
  show "0 \<le> sint a * sint a + sint b * sint b"
    using A(2) B(2) by linarith
  show "sint a * sint a + sint b * sint b < 2 ^ 30"
    using A(3) B(3) by simp
  have "- 2147483648 \<le> sint (a * a) + sint (b * b)"
    "sint (a * a) + sint (b * b) < 2147483648"
    unfolding A(1) B(1) using A(2,3) B(2,3) by linarith+
  then have "sint (a * a + b * b) = sint (a * a) + sint (b * b)"
    by (rule s32_add)
  then show "sint (a * a + b * b) = sint a * sint a + sint b * sint b"
    by (simp only: A(1) B(1))
qed

lemma fast_sqrt_le:
  fixes r :: int
  assumes "0 \<le> sint s" "sint s < 2 ^ 30" "sint s < (r + 1) * (r + 1)" "0 \<le> r"
  shows "sint (fast_sqrt s) \<le> r"
proof (cases "sint s = 0")
  case True
  then show ?thesis
    using assms(4) by (simp add: fast_sqrt_nonpos)
next
  case False
  with assms(1) have "0 < sint s" by simp
  from fast_sqrt_floor [OF this assms(2)]
  have d: "0 \<le> sint (fast_sqrt s)" "sint (fast_sqrt s) * sint (fast_sqrt s) \<le> sint s"
    by simp_all
  show ?thesis
  proof (rule ccontr)
    assume "\<not> sint (fast_sqrt s) \<le> r"
    then have "r + 1 \<le> sint (fast_sqrt s)" by simp
    then have "(r + 1) * (r + 1) \<le> sint (fast_sqrt s) * sint (fast_sqrt s)"
      using assms(4) by (intro mult_mono) simp_all
    with d(2) assms(3) show False by linarith
  qed
qed

lemma scaled_component:
  fixes d R dist :: s32
  assumes r: "0 \<le> sint R" "sint R \<le> 23170" and d: "\<bar>sint d\<bar> \<le> sint R"
    and far: "sint R < sint dist"
  shows "\<bar>sint (sdiv32 (d * R) dist)\<bar> * sint dist \<le> \<bar>sint d\<bar> * sint R"
    and "\<bar>sint (sdiv32 (d * R) dist)\<bar> \<le> 23170"
proof -
  have pos: "0 < sint dist"
    using r far by linarith
  have "\<bar>sint d * sint R\<bar> \<le> 23170 * 23170"
    unfolding abs_mult using r d by (intro mult_mono) simp_all
  then have "- 2147483648 \<le> sint d * sint R" "sint d * sint R < 2147483648"
    by linarith+
  then have prod: "sint (d * R) = sint d * sint R"
    by (rule s32_mult)
  have q: "sint (sdiv32 (d * R) dist) = (sint d * sint R) sdiv sint dist"
    by (simp add: sdiv32_sint [OF pos] prod)
  have "\<bar>(sint d * sint R) sdiv sint dist\<bar> * sint dist \<le> \<bar>sint d * sint R\<bar>"
    by (rule sdiv_abs_mult_le [OF pos])
  then show le: "\<bar>sint (sdiv32 (d * R) dist)\<bar> * sint dist \<le> \<bar>sint d\<bar> * sint R"
    using r by (simp add: q abs_mult)
  have "\<bar>sint d\<bar> * sint R \<le> sint R * sint dist"
    using d far r by (simp add: mult.commute mult_mono)
  with le have "\<bar>sint (sdiv32 (d * R) dist)\<bar> * sint dist \<le> sint R * sint dist"
    by linarith
  then have "\<bar>sint (sdiv32 (d * R) dist)\<bar> \<le> sint R"
    using pos by simp
  then show "\<bar>sint (sdiv32 (d * R) dist)\<bar> \<le> 23170"
    using r by linarith
qed

lemma joystick_target_within:
  assumes r: "0 \<le> sint (joy_radius js)" "sint (joy_radius js) \<le> 23170"
    and dx: "\<bar>sint dx\<bar> \<le> sint (joy_radius js)"
    and dy: "\<bar>sint dy\<bar> \<le> sint (joy_radius js)"
  shows "\<exists>cx cy. joystick_target js dx dy = Some (cx, cy)
           \<and> fast_sqrt ((cx - joy_center_x js) * (cx - joy_center_x js)
                       + (cy - joy_center_y js) * (cy - joy_center_y js))
               \<le>s joy_radius js"
proof -
  let ?R = "joy_radius js"
  let ?S = "dx * dx + dy * dy"
  have bdx: "\<bar>sint dx\<bar> \<le> 23170" and bdy: "\<bar>sint dy\<bar> \<le> 23170"
    using r dx dy by linarith+
  note S = sum_squares [OF bdx bdy]
  have cancel: "joy_center_x js + dx - joy_center_x js = dx"
    "joy_center_y js + dy - joy_center_y js = dy"
    by simp_all
  show ?thesis
  proof (cases "?R <s fast_sqrt ?S")
    case False
    then have "joystick_target js dx dy = Some (joy_center_x js + dx, joy_center_y js + dy)"
      by (simp add: joystick_target_def Let_def cancel)
    moreover have "fast_sqrt ?S \<le>s ?R"
      using False by (simp add: word_sle_eq word_sless_alt)
    ultimately show ?thesis
      by (simp add: cancel)
  next
    case True
    then have far: "sint ?R < sint (fast_sqrt ?S)"
      by (simp add: word_sless_alt)
    then have pos: "0 < sint (fast_sqrt ?S)"
      using r by linarith
    then have nz: "fast_sqrt ?S \<noteq> 0"
      by auto
    have Spos: "0 < sint ?S"
    proof (rule ccontr)
      assume "\<not> 0 < sint ?S"
      then have "fast_sqrt ?S = 0"
        by (simp add: fast_sqrt_nonpos)
      with nz show False by simp
    qed
    have "sint ?S < 2 ^ 30"
      using S by simp
    from fast_sqrt_floor [OF Spos this]
    have up: "sint dx * sint dx + sint dy * sint dy
        < (sint (fast_sqrt ?S) + 1) * (sint (fast_sqrt ?S) + 1)"
      by (simp add: S(1))
    let ?qx = "sdiv32 (dx * ?R) (fast_sqrt ?S)"
    let ?qy = "sdiv32 (dy * ?R) (fast_sqrt ?S)"
    note qx = scaled_component [OF r dx far] and qy = scaled_component [OF r dy far]
    have tgt: "joystick_target js dx dy = Some (joy_center_x js + ?qx, joy_center_y js + ?qy)"
      using True nz by (simp add: joystick_target_def Let_def cancel)
    note S' = sum_squares [OF qx(2) qy(2)]
    have "sint ?qx * sint ?qx + sint ?qy * sint ?qy < (sint ?R + 1) * (sint ?R + 1)"
      using pos r(1) _ up qx(1) qy(1)
      by (rule rescale_inside) (use far in simp)
    then have "sint (fast_sqrt (?qx * ?qx + ?qy * ?qy)) \<le> sint ?R"
      using S' r(1) by (intro fast_sqrt_le) simp_all
    then have "fast_sqrt (?qx * ?qx + ?qy * ?qy) \<le>s ?R"
      by (simp add: word_sle_eq)
    with tgt show ?thesis
      by simp
  qed
qed

lemma joystick_vector_bound:
  assumes r: "0 \<le> sint (joy_radius js)" "sint (joy_radius js) \<le> 23170"
    and v: "joystick_vector js ks = (dx, dy)"
  shows "\<bar>sint dx\<bar> \<le> sint (joy_radius js) \<and> \<bar>sint dy\<bar> \<le> sint (joy_radius js)"
proof -
  have m: "sint (- joy_radius js) = - sint (joy_radius js)"
    using r by (intro s32_minus) linarith
  from v [symmetric] show ?thesis
    using r by (auto simp: joystick_vector_def Let_def m)
qed

lemma send_joystick [simp]:
  "joystick (config (send_touch_event_safe rnd slot x y p dev)) = joystick (config dev)"
  by (simp add: send_touch_event_safe_def Let_def)

text \<open>
  Claim C6, amended. Take a joystick update with the joystick enabled, in joystick mode,
  and a configured radius from 0 to 23170 (so that no product leaves the range of \<^verbatim>\<open>int\<close>).
  The update returns, leaves centre and radius as they are, and if the joystick is active
  afterwards, its current position is within the radius of the centre, the distance
  being the integer square root that the driver computes. After a displacement beyond
  the radius the rescaled point is on or inside the circle, not always on it.
\<close>

theorem joystick_within_radius:
  assumes en: "joy_enabled (joystick (config dev)) \<noteq> 0"
    and mode: "current_mode (config dev) = MODE_JOYSTICK"
    and r: "0 \<le>s joy_radius (joystick (config dev))"
      "joy_radius (joystick (config dev)) \<le>s 23170"
  shows "\<exists>dev'. update_joystick_state rnd keycode pressed dev = Some dev'
           \<and> joy_center_x (joystick (config dev')) = joy_center_x (joystick (config dev))
           \<and> joy_center_y (joystick (config dev')) = joy_center_y (joystick (config dev))
           \<and> joy_radius (joystick (config dev')) = joy_radius (joystick (config dev))
           \<and> (joy_active (joystick (config dev')) \<noteq> 0 \<longrightarrow>
                joystick_distance (joystick (config dev'))
                  \<le>s joy_radius (joystick (config dev')))"
proof -
  let ?js = "joystick (config dev)"
  let ?js1 = "?js\<lparr>joy_key_states := joystick_keys ?js keycode pressed\<rparr>"
  obtain dx dy where v: "joystick_vector ?js1 (joy_key_states ?js1) = (dx, dy)"
    by (cases "joystick_vector ?js1 (joy_key_states ?js1)")
  have r1: "0 \<le> sint (joy_radius ?js1)" "sint (joy_radius ?js1) \<le> 23170"
    using r by (simp_all add: word_sle_eq)
  note b = joystick_vector_bound [OF r1 v]
  show ?thesis
  proof (cases "dx \<noteq> 0 \<or> dy \<noteq> 0")
    case True
    from joystick_target_within [OF r1 b [THEN conjunct1] b [THEN conjunct2]]
    obtain cx cy where t: "joystick_target ?js1 dx dy = Some (cx, cy)"
      and d: "fast_sqrt ((cx - joy_center_x ?js1) * (cx - joy_center_x ?js1)
                       + (cy - joy_center_y ?js1) * (cy - joy_center_y ?js1))
               \<le>s joy_radius ?js1"
      by blast
    have "update_joystick_state rnd keycode pressed dev =
        Some (send_touch_event_safe rnd (joy_move_slot ?js1) cx cy 100
                (dev\<lparr>config := (config dev)\<lparr>joystick :=
                   ?js1\<lparr>joy_current_x := cx, joy_current_y := cy, joy_active := 1\<rparr>\<rparr>\<rparr>))"
      using en mode True v t by (simp add: update_joystick_state_def Let_def)
    then show ?thesis
      using d by (simp add: joystick_distance_def)
  next
    case False
    then show ?thesis
      using en mode v by (simp add: update_joystick_state_def Let_def)
  qed
qed

lemma sqrt_values:
  "fast_sqrt 22500 = 150" "fast_sqrt 45000 = 212" "fast_sqrt 22472 = 149"
  "fast_sqrt 2740000 = 1655" "fast_sqrt 2960000 = 1720"
  by code_simp+

lemma up_then_right:
  "update_joystick_state (\<lambda>n. 0) 32 1 up_device = Some diagonal_device"
  by code_simp

lemma run_diagonal:
  "run (\<lambda>n. 0) 250 [Command frame_mode_joystick 0, Key_event 17 1, Key_event 32 1]
     stealth_driver_init = Some diagonal_device"
  by code_simp

text \<open>
  Claim C6 fails as stated. Right after initialisation the joystick position is (0, 0), at
  distance 1655 from its centre (700, 1500) with radius 150, and the view position is
  (0, 0), at distance 1720 from its centre (1400, 1000) with radius 300. And after the
  presses of up and right in joystick mode the displacement (150, -150), of length 212,
  is rescaled to (106, -106): the position (806, 1394) is at distance 149, not 150.
\<close>

theorem joystick_within_radius_counterexample:
  "joystick_distance (joystick (config stealth_driver_init)) = 1655
   \<and> joy_radius (joystick (config stealth_driver_init)) = 150
   \<and> \<not> joystick_distance (joystick (config stealth_driver_init))
         \<le>s joy_radius (joystick (config stealth_driver_init))
   \<and> view_distance (view (config stealth_driver_init)) = 1720
   \<and> view_max_radius (view (config stealth_driver_init)) = 300
   \<and> \<not> view_distance (view (config stealth_driver_init))
         \<le>s view_max_radius (view (config stealth_driver_init))
   \<and> run (\<lambda>n. 0) 250 [Command frame_mode_joystick 0, Key_event 17 1, Key_event 32 1]
         stealth_driver_init = Some diagonal_device
   \<and> joy_current_x (joystick (config diagonal_device)) = 806
   \<and> joy_current_y (joystick (config diagonal_device)) = 1394
   \<and> joystick_distance (joystick (config diagonal_device)) = 149
   \<and> joy_radius (joystick (config diagonal_device)) = 150"
proof -
  have "joystick_distance (joystick (config stealth_driver_init)) = 1655"
    "joy_radius (joystick (config stealth_driver_init)) = 150"
    "view_distance (view (config stealth_driver_init)) = 1720"
    "view_max_radius (view (config stealth_driver_init)) = 300"
    "joy_current_x (joystick (config diagonal_device)) = 806"
    "joy_current_y (joystick (config diagonal_device)) = 1394"
    "joystick_distance (joystick (config diagonal_device)) = 149"
    "joy_radius (joystick (config diagonal_device)) = 150"
    by code_simp+
  then show ?thesis
    using run_diagonal by (simp add: word_sle_eq)
qed

theorem joystick_within_radius_witness:
  "joy_enabled (joystick (config up_device)) \<noteq> 0
   \<and> current_mode (config up_device) = MODE_JOYSTICK
   \<and> 0 \<le>s joy_radius (joystick (config up_device))
   \<and> joy_radius (joystick (config up_device)) \<le>s 23170
   \<and> update_joystick_state (\<lambda>n. 0) 32 1 up_device = Some diagonal_device
   \<and> joy_active (joystick (config diagonal_device)) \<noteq> 0
   \<and> joystick_distance (joystick (config diagonal_device))
       \<le>s joy_radius (joystick (config diagonal_device))"
proof -
  have en: "joy_enabled (joystick (config up_device)) \<noteq> 0"
    and mode: "current_mode (config up_device) = MODE_JOYSTICK"
    and r: "0 \<le>s joy_radius (joystick (config up_device))"
      "joy_radius (joystick (config up_device)) \<le>s 23170"
    and act: "joy_active (joystick (config diagonal_device)) \<noteq> 0"
    by code_simp+
  from joystick_within_radius [OF en mode r, of "\<lambda>n. 0" 32 1]
  obtain dev' where u: "update_joystick_state (\<lambda>n. 0) 32 1 up_device = Some dev'"
    and w: "joy_active (joystick (config dev')) \<noteq> 0 \<longrightarrow>
              joystick_distance (joystick (config dev')) \<le>s joy_radius (joystick (config dev'))"
    by blast
  from u up_then_right have "dev' = diagonal_device"
    by simp
  with w act have "joystick_distance (joystick (config diagonal_device))
       \<le>s joy_radius (joystick (config diagonal_device))"
    by simp
  with en mode r up_then_right act show ?thesis
    by simp
qed

end
